theory Spec2Isabelle
  imports Main
begin

section \<open>Go library functions the program calls\<close>

text \<open>
  Go strings are byte sequences; they are modelled as \<open>string\<close> (a list of 8-bit
  characters). The separators the program passes to \<open>strings.Split\<close> and
  \<open>strings.SplitN\<close> are the one-byte strings "-", "." and "/", so the separator is a
  single character here. \<open>int\<close> is the 64-bit Go \<open>int\<close>; \<open>strconv.Atoi\<close> only
  returns values inside that range, so they are kept as mathematical integers.
\<close>

subsection \<open>strings.Split, strings.SplitN, strings.TrimPrefix\<close>

fun Split :: "string \<Rightarrow> char \<Rightarrow> string list" where
  "Split [] sep = [[]]"
| "Split (c # cs) sep =
     (if c = sep then [] # Split cs sep
      else (case Split cs sep of
              [] \<Rightarrow> [[c]]
            | p # ps \<Rightarrow> (c # p) # ps))"

fun SplitN :: "string \<Rightarrow> char \<Rightarrow> nat \<Rightarrow> string list" where
  "SplitN s sep 0 = []"
| "SplitN s sep (Suc 0) = [s]"
| "SplitN s sep (Suc (Suc n)) =
     (if sep \<in> set s
      then takeWhile (\<lambda>c. c \<noteq> sep) s # SplitN (tl (dropWhile (\<lambda>c. c \<noteq> sep) s)) sep (Suc n)
      else [s])"

definition TrimPrefix :: "string \<Rightarrow> string \<Rightarrow> string" where
  "TrimPrefix s p = (if take (length p) s = p then drop (length p) s else s)"

subsection \<open>strings.TrimSpace\<close>

text \<open>
  \<open>TrimSpace\<close> removes leading and trailing white space as \<open>unicode.IsSpace\<close> defines it.
  On a byte string that is: repeatedly removing, at either end, the UTF-8 encoding of one
  of the white-space code points (tab, line feed, vertical tab, form feed, carriage
  return, space, U+0085, U+00A0, U+1680, U+2000 to U+200A, U+2028, U+2029, U+202F,
  U+205F, U+3000).
\<close>

definition space_seqs :: "string list" where
  "space_seqs =
     [[CHR 0x09], [CHR 0x0A], [CHR 0x0B], [CHR 0x0C], [CHR 0x0D], [CHR 0x20],
      [CHR 0xC2, CHR 0x85], [CHR 0xC2, CHR 0xA0],
      [CHR 0xE1, CHR 0x9A, CHR 0x80],
      [CHR 0xE2, CHR 0x80, CHR 0x80], [CHR 0xE2, CHR 0x80, CHR 0x81],
      [CHR 0xE2, CHR 0x80, CHR 0x82], [CHR 0xE2, CHR 0x80, CHR 0x83],
      [CHR 0xE2, CHR 0x80, CHR 0x84], [CHR 0xE2, CHR 0x80, CHR 0x85],
      [CHR 0xE2, CHR 0x80, CHR 0x86], [CHR 0xE2, CHR 0x80, CHR 0x87],
      [CHR 0xE2, CHR 0x80, CHR 0x88], [CHR 0xE2, CHR 0x80, CHR 0x89],
      [CHR 0xE2, CHR 0x80, CHR 0x8A],
      [CHR 0xE2, CHR 0x80, CHR 0xA8], [CHR 0xE2, CHR 0x80, CHR 0xA9],
      [CHR 0xE2, CHR 0x80, CHR 0xAF], [CHR 0xE2, CHR 0x81, CHR 0x9F],
      [CHR 0xE3, CHR 0x80, CHR 0x80]]"

fun strip_first :: "string list \<Rightarrow> string \<Rightarrow> string option" where
  "strip_first [] s = None"
| "strip_first (p # ps) s =
     (if p \<noteq> [] \<and> take (length p) s = p then Some (drop (length p) s)
      else strip_first ps s)"

function trim_seqs :: "string list \<Rightarrow> string \<Rightarrow> string" where
  "trim_seqs ps s = (case strip_first ps s of None \<Rightarrow> s | Some r \<Rightarrow> trim_seqs ps r)"
  by pat_completeness auto
termination
proof (relation "measure (\<lambda>(ps, s). length s)")
  show "wf (measure (\<lambda>(ps, s). length s))" by simp
next
  fix ps :: "string list" and s r :: string
  assume "strip_first ps s = Some r"
  then have "length r < length s"
  proof (induction ps)
    case Nil
    then show ?case by simp
  next
    case (Cons p ps)
    show ?case
    proof (cases "p \<noteq> [] \<and> take (length p) s = p")
      case True
      with Cons.prems have "r = drop (length p) s" by simp
      then have r: "length r = length s - length p" by simp
      from True have "length (take (length p) s) = length p" by simp
      then have le: "length p \<le> length s" by simp
      from True have pos: "1 \<le> length p" by (cases p) simp_all
      from r le pos show ?thesis by arith
    next
      case False
      with Cons show ?thesis by auto
    qed
  qed
  then show "((ps, r), (ps, s)) \<in> measure (\<lambda>(ps, s). length s)" by simp
qed

definition TrimSpace :: "string \<Rightarrow> string" where
  "TrimSpace s = rev (trim_seqs (map rev space_seqs) (rev (trim_seqs space_seqs s)))"

subsection \<open>strings.Join, filepath.Clean, filepath.Join\<close>

text \<open>
  \<open>filepath.Clean\<close> on a Unix path: empty and \<open>.\<close> elements are dropped, an inner
  \<open>..\<close> removes the element before it, a \<open>..\<close> that begins a rooted path is dropped
  and one that begins a relative path is kept; the empty result is \<open>.\<close>. The stack holds
  the kept elements, last first. \<open>filepath.Join\<close> skips leading empty elements, joins
  the rest with \<open>/\<close> and cleans the result.
\<close>

fun strings_Join :: "string list \<Rightarrow> string \<Rightarrow> string" where
  "strings_Join [] sep = []"
| "strings_Join [x] sep = x"
| "strings_Join (x # y # ys) sep = x @ sep @ strings_Join (y # ys) sep"

definition clean_step :: "bool \<Rightarrow> string list \<Rightarrow> string \<Rightarrow> string list" where
  "clean_step rooted st e =
     (if e = [] \<or> e = ''.'' then st
      else if e = ''..'' then
        (case st of
           [] \<Rightarrow> if rooted then [] else [''..'']
         | e1 # rest \<Rightarrow> if e1 = ''..'' then ''..'' # st else rest)
      else e # st)"

definition filepath_Clean :: "string \<Rightarrow> string" where
  "filepath_Clean path =
     (if path = [] then ''.''
      else (let rooted = (hd path = CHR ''/'');
                st = foldl (clean_step rooted) [] (Split path (CHR ''/''));
                out = (if rooted then ''/'' else []) @ strings_Join (rev st) ''/''
            in if out = [] then ''.'' else out))"

definition filepath_Join :: "string list \<Rightarrow> string" where
  "filepath_Join elem =
     (case dropWhile (\<lambda>e. e = []) elem of
        [] \<Rightarrow> []
      | es \<Rightarrow> filepath_Clean (strings_Join es ''/''))"

text \<open>
  \<open>filepath.Split\<close> cuts a path after its last \<open>/\<close>: the directory part keeps the
  slash, the file part has none. \<open>strings.HasSuffix\<close> and \<open>strings.FieldsFunc\<close> (the
  non-empty runs of characters between separators) are used by \<open>net/http\<close>.
\<close>

definition filepath_Split :: "string \<Rightarrow> string \<times> string" where
  "filepath_Split path =
     (let file = rev (takeWhile (\<lambda>c. c \<noteq> CHR ''/'') (rev path))
      in (take (length path - length file) path, file))"

definition HasSuffix :: "string \<Rightarrow> string \<Rightarrow> bool" where
  "HasSuffix s suffix =
     (length suffix \<le> length s \<and> drop (length s - length suffix) s = suffix)"

fun fields_from :: "(char \<Rightarrow> bool) \<Rightarrow> string \<Rightarrow> string \<Rightarrow> string list" where
  "fields_from f cur [] = (if cur = [] then [] else [rev cur])"
| "fields_from f cur (c # cs) =
     (if f c then (if cur = [] then [] else [rev cur]) @ fields_from f [] cs
      else fields_from f (c # cur) cs)"

definition FieldsFunc :: "string \<Rightarrow> (char \<Rightarrow> bool) \<Rightarrow> string list" where
  "FieldsFunc s f = fields_from f [] s"

subsection \<open>strconv.Atoi\<close>

text \<open>
  \<open>Atoi s\<close> is \<open>ParseInt(s, 10, 0)\<close> (its fast path for short strings computes the
  same result). \<open>ParseInt\<close> takes an optional sign off and calls \<open>ParseUint\<close>, whose loop
  reads the bytes left to right: a byte that is not a decimal digit ends it with value 0
  and a syntax error; a digit that would take the value past \<open>2^64 - 1\<close> ends it with
  that maximum and a range error, whatever follows. \<open>ParseInt\<close> then clamps to the
  signed range. The program discards the error and keeps the value.
\<close>

datatype num_err = ErrSyntax | ErrRange

definition is_digit :: "char \<Rightarrow> bool" where
  "is_digit c = (48 \<le> (of_char c :: nat) \<and> (of_char c :: nat) \<le> 57)"

definition digit_val :: "char \<Rightarrow> nat" where
  "digit_val c = of_char c - 48"

definition maxUint64 :: nat where
  "maxUint64 = 2 ^ 64 - 1"

fun ParseUint_loop :: "nat \<Rightarrow> string \<Rightarrow> nat \<times> num_err option" where
  "ParseUint_loop n [] = (n, None)"
| "ParseUint_loop n (c # cs) =
     (if \<not> is_digit c then (0, Some ErrSyntax)
      else if n \<ge> maxUint64 div 10 + 1 then (maxUint64, Some ErrRange)
      else (let n1 = n * 10 + digit_val c in
            if n1 > maxUint64 then (maxUint64, Some ErrRange)
            else ParseUint_loop n1 cs))"

definition ParseUint :: "string \<Rightarrow> nat \<times> num_err option" where
  "ParseUint s = (if s = [] then (0, Some ErrSyntax) else ParseUint_loop 0 s)"

definition ParseInt :: "string \<Rightarrow> int \<times> num_err option" where
  "ParseInt s =
     (if s = [] then (0, Some ErrSyntax)
      else (let neg = (hd s = CHR ''-'');
                s1 = (if hd s = CHR ''+'' \<or> hd s = CHR ''-'' then tl s else s);
                r = ParseUint s1;
                un = fst r
            in if snd r = Some ErrSyntax then (0, Some ErrSyntax)
               else if \<not> neg \<and> un \<ge> 2 ^ 63 then (2 ^ 63 - 1, Some ErrRange)
               else if neg \<and> un > 2 ^ 63 then (- (2 ^ 63), Some ErrRange)
               else (if neg then - int un else int un, None)))"

definition Atoi :: "string \<Rightarrow> int \<times> num_err option" where
  "Atoi s = ParseInt s"

section \<open>Version Comparator\<close>

text \<open>
  \<open>isNewer\<close> is the same function in the standalone server and in the controller.
  \<open>parse\<close> and \<open>get\<close> are its two closures; \<open>get\<close> takes the split parts it closes
  over as an argument.
\<close>

definition get :: "string list \<Rightarrow> nat \<Rightarrow> int" where
  "get parts i = (if i \<ge> length parts then 0 else fst (Atoi (parts ! i)))"

definition parse :: "string \<Rightarrow> int \<times> int \<times> int" where
  "parse s =
     (let s1 = SplitN s (CHR ''-'') 2 ! 0;
          parts = Split s1 (CHR ''.'')
      in (get parts 0, get parts 1, get parts 2))"

definition isNewer :: "string \<Rightarrow> string \<Rightarrow> bool" where
  "isNewer a b =
     (case parse a of (amaj, amin, apat) \<Rightarrow>
      case parse b of (bmaj, bmin, bpat) \<Rightarrow>
        if amaj \<noteq> bmaj then amaj > bmaj
        else if amin \<noteq> bmin then amin > bmin
        else apat > bpat)"

subsection \<open>The comparator as the specification words it\<close>

text \<open>
  The specification's reading: strip what follows the first \<open>-\<close>, take the
  dot-separated segments, read a segment that is a run of decimal digits as its decimal
  value and any other or missing segment as 0, and compare the triplets
  lexicographically.
\<close>

definition dec :: "string \<Rightarrow> nat" where
  "dec ds = foldl (\<lambda>a c. a * 10 + digit_val c) 0 ds"

text \<open>The decimal value of a digit run read after the value \<open>n\<close>.\<close>

definition dec_from :: "nat \<Rightarrow> string \<Rightarrow> nat" where
  "dec_from n ds = foldl (\<lambda>a c. a * 10 + digit_val c) n ds"

fun segment :: "nat \<Rightarrow> string \<Rightarrow> string option" where
  "segment 0 s = Some (takeWhile (\<lambda>c. c \<noteq> CHR ''.'') s)"
| "segment (Suc i) s =
     (if CHR ''.'' \<in> set s then segment i (tl (dropWhile (\<lambda>c. c \<noteq> CHR ''.'') s)) else None)"

definition triple_gt :: "int \<times> int \<times> int \<Rightarrow> int \<times> int \<times> int \<Rightarrow> bool" where
  "triple_gt x y =
     (case x of (x1, x2, x3) \<Rightarrow> case y of (y1, y2, y3) \<Rightarrow>
        x1 > y1 \<or> (x1 = y1 \<and> (x2 > y2 \<or> (x2 = y2 \<and> x3 > y3))))"

definition spec_component :: "string option \<Rightarrow> int" where
  "spec_component seg =
     (case seg of
        None \<Rightarrow> 0
      | Some p \<Rightarrow> if p \<noteq> [] \<and> list_all is_digit p then int (dec p) else 0)"

definition spec_triplet :: "string \<Rightarrow> int \<times> int \<times> int" where
  "spec_triplet s =
     (let pre = takeWhile (\<lambda>c. c \<noteq> CHR ''-'') s
      in (spec_component (segment 0 pre), spec_component (segment 1 pre),
          spec_component (segment 2 pre)))"

definition spec_isNewer :: "string \<Rightarrow> string \<Rightarrow> bool" where
  "spec_isNewer a b = triple_gt (spec_triplet a) (spec_triplet b)"

text \<open>
  What the code computes for a segment: an optional leading \<open>+\<close> is accepted; a digit
  run is read as its decimal value, clamped to \<open>2^63 - 1\<close>; a segment whose leading
  digit run already exceeds \<open>2^64 - 1\<close> is read as \<open>2^63 - 1\<close> whatever follows the
  run; every other segment, and a missing one, is 0.
\<close>

definition component :: "string option \<Rightarrow> int" where
  "component seg =
     (case seg of
        None \<Rightarrow> 0
      | Some p \<Rightarrow>
          (let q = (if p \<noteq> [] \<and> hd p = CHR ''+'' then tl p else p);
               d = takeWhile is_digit q
           in if q \<noteq> [] \<and> d = q then min (int (dec d)) (2 ^ 63 - 1)
              else if dec d > maxUint64 then 2 ^ 63 - 1
              else 0))"

definition version_triplet :: "string \<Rightarrow> int \<times> int \<times> int" where
  "version_triplet s =
     (let pre = takeWhile (\<lambda>c. c \<noteq> CHR ''-'') s
      in (component (segment 0 pre), component (segment 1 pre), component (segment 2 pre)))"

section \<open>Release Store and Artifact Repository (server)\<close>

text \<open>
  The repository holds two servers over the same \<open>Release\<close> and \<open>Store\<close> types: the
  standalone one (\<open>handlePublish\<close>, \<open>handleCheck\<close>, \<open>handleDownload\<close> on
  \<open>net/http\<close>) and the controller of the platform server (\<open>Publish\<close>, \<open>Check\<close> on gin),
  whose file is present in two revisions; the earlier \<open>Publish\<close> is \<open>Publish_v1\<close> here.

  State: the in-memory store, the snapshot file \<open>releases.json\<close> as last written
  (\<open>None\<close> when it is missing or does not decode), the artifact directories and the
  artifact files by path. The snapshot is JSON: \<open>FilePath\<close> is tagged \<open>json:"-"\<close> and is
  not written, every other field is read back as written. This takes the strings of the
  store to be valid UTF-8: \<open>encoding/json\<close> writes every byte that is not part of a
  valid UTF-8 sequence as U+FFFD, in keys and in fields alike, so that a store holding
  such strings is not read back as it was saved. The temporary file
  \<open>releases.json.tmp\<close> and the data directory are not part of the state: a
  \<open>saveStore\<close> that fails leaves the snapshot file as it was. \<open>MkdirAll\<close> records the
  directory it is asked for. \<open>CreatedAt\<close> is a clock reading supplied by the
  environment; SHA-256 with hex encoding is the parameter \<open>H\<close> of the handlers.
\<close>

record Release =
  Version :: string
  Channel :: string
  URL :: string
  Sha256 :: string
  Notes :: string
  CreatedAt :: nat
  FilePath :: string

record Store =
  ReleasesByVersion :: "string \<rightharpoonup> Release"
  LatestByChannel :: "string \<rightharpoonup> string"

record server =
  store :: Store
  snapshot :: "Store option"
  dirs :: "string set"
  files :: "string \<rightharpoonup> string"

definition dataDir :: string where
  "dataDir = ''../../data''"

definition artDir :: string where
  "artDir = ''../../artifacts''"

definition storeFile :: string where
  "storeFile = filepath_Join [dataDir, ''releases.json'']"

definition empty_store :: Store where
  "empty_store = \<lparr>ReleasesByVersion = Map.empty, LatestByChannel = Map.empty\<rparr>"

text \<open>
  What a handler writes to the response, in order; the status of the response is that of
  the first reply. Status 400 is the validation class of the specification, 404 the
  not-found class, 500 the persistence (internal) class. Where a message contains the
  text of a Go error, only its fixed prefix is kept. \<open>ReleaseJson r\<close> and \<open>CheckJson\<close>
  stand for the JSON encodings, which leave \<open>FilePath\<close> out. The other outputs are
  those of \<open>http.ServeFile\<close>: \<open>Redirect l\<close> is status 301 with \<open>Location\<close> \<open>l\<close>;
  \<open>ServeContent b\<close> is \<open>serveContent\<close> on an open regular file with content \<open>b\<close>
  (status 200 and the bytes \<open>b\<close> for a GET without range or conditional headers);
  \<open>ServeDirectory p\<close> is what \<open>serveFile\<close> does with the directory \<open>p\<close> (a redirect to
  the request path with a final slash, the directory's \<open>index.html\<close>, or a listing of
  the directory).
\<close>

datatype body =
    Text string
  | ReleaseJson Release
  | CheckJson bool "Release option" string
  | FailureJson nat string string

datatype http_out =
    Reply nat body
  | Redirect string
  | ServeContent string
  | ServeDirectory string
  | Panicked

text \<open>
  The environment of one publish call: which system calls fail (\<open>copy_err = Some k\<close>: the
  copy fails after \<open>k\<close> bytes), and the clock.
\<close>

record pub_env =
  mkdir_fails :: bool
  create_fails :: bool
  open_dst_fails :: bool
  open_src_fails :: bool
  copy_err :: "nat option"
  save_fails :: bool
  now :: nat

text \<open>
  A publish request as the form accessors see it: a field that is absent reads as the
  empty string, \<open>form_file = None\<close> when \<open>FormFile\<close> returns an error.
\<close>

record publish_req =
  req_method :: string
  multipart_ok :: bool
  form_version :: string
  form_channel :: string
  form_notes :: string
  form_file :: "string option"

record check_req =
  q_channel :: "string option"
  q_current :: "string option"

text \<open>
  \<open>url.Values.Get\<close> and gin's \<open>Query\<close> read an absent parameter as the empty string;
  gin's \<open>DefaultQuery\<close> uses the default only when the parameter is absent.
\<close>

definition Get :: "string option \<Rightarrow> string" where
  "Get q = (case q of None \<Rightarrow> [] | Some c \<Rightarrow> c)"

definition DefaultQuery :: "string option \<Rightarrow> string \<Rightarrow> string" where
  "DefaultQuery q d = (case q of None \<Rightarrow> d | Some c \<Rightarrow> c)"

subsection \<open>Snapshot persistence\<close>

definition persisted :: "Store \<Rightarrow> Store" where
  "persisted st =
     st\<lparr>ReleasesByVersion :=
          (\<lambda>v. map_option (\<lambda>r. r\<lparr>FilePath := []\<rparr>) (ReleasesByVersion st v))\<rparr>"

definition saveStore :: "pub_env \<Rightarrow> server \<Rightarrow> bool \<times> server" where
  "saveStore e s =
     (if save_fails e then (False, s)
      else (True, s\<lparr>snapshot := Some (persisted (store s))\<rparr>))"

text \<open>\<open>loadStore\<close> of the controller: decode into a fresh store, then replace both maps.\<close>

definition loadStore :: "server \<Rightarrow> bool \<times> server" where
  "loadStore s =
     (case snapshot s of
        None \<Rightarrow> (False, s)
      | Some tmp \<Rightarrow>
          (True, s\<lparr>store := (store s)\<lparr>ReleasesByVersion := ReleasesByVersion tmp,
                                      LatestByChannel := LatestByChannel tmp\<rparr>\<rparr>))"

definition put_release :: "string \<Rightarrow> string \<Rightarrow> Release \<Rightarrow> server \<Rightarrow> server" where
  "put_release version channel rel s =
     s\<lparr>store := (store s)\<lparr>ReleasesByVersion := (ReleasesByVersion (store s))(version \<mapsto> rel),
                            LatestByChannel := (LatestByChannel (store s))(channel \<mapsto> version)\<rparr>\<rparr>"

subsection \<open>Standalone server\<close>

definition handlePublish ::
  "(string \<Rightarrow> string) \<Rightarrow> pub_env \<Rightarrow> publish_req \<Rightarrow> server \<Rightarrow> server \<times> http_out list" where
  "handlePublish H e r s =
     (if req_method r \<noteq> ''POST'' then (s, [Reply 405 (Text ''POST only'')])
      else if \<not> multipart_ok r then (s, [Reply 400 (Text [])])
      else (let version = TrimSpace (form_version r) in
        if version = [] then (s, [Reply 400 (Text ''missing version'')])
        else (let channel = (if form_channel r = [] then ''stable'' else form_channel r);
                  notes = form_notes r
          in case form_file r of
               None \<Rightarrow> (s, [Reply 400 (Text ''missing file: '')])
             | Some content \<Rightarrow>
                 (let vDir = filepath_Join [artDir, version] in
                  if mkdir_fails e then (s, [Reply 500 (Text [])])
                  else (let s1 = s\<lparr>dirs := insert vDir (dirs s)\<rparr>;
                            dstPath = filepath_Join [vDir, ''algorithm'']
                    in if create_fails e then (s1, [Reply 500 (Text ''create dst: '')])
                       else (case copy_err e of
                          Some k \<Rightarrow>
                            (s1\<lparr>files := (files s1)(dstPath \<mapsto> take k content)\<rparr>,
                             [Reply 500 (Text ''save file: '')])
                        | None \<Rightarrow>
                            (let s2 = s1\<lparr>files := (files s1)(dstPath \<mapsto> content)\<rparr>;
                                 sum = H content;
                                 url = ''/download/'' @ version;
                                 rel = \<lparr>Version = version, Channel = channel, URL = url,
                                        Sha256 = sum, Notes = notes, CreatedAt = now e,
                                        FilePath = dstPath\<rparr>;
                                 s3 = put_release version channel rel s2
                             in case saveStore e s3 of
                                  (False, s4) \<Rightarrow> (s4, [Reply 500 (Text ''save metadata: '')])
                                | (True, s4) \<Rightarrow> (s4, [Reply 200 (ReleaseJson rel)]))))))))"

definition handleCheck :: "check_req \<Rightarrow> server \<Rightarrow> server \<times> http_out list" where
  "handleCheck r s =
     (let channel = (if Get (q_channel r) = [] then ''stable'' else Get (q_channel r));
          current = Get (q_current r)
      in case LatestByChannel (store s) channel of
           None \<Rightarrow> (s, [Reply 404 (Text ''no release in channel'')])
         | Some latestVersion \<Rightarrow>
             (let latest = ReleasesByVersion (store s) latestVersion in
              if current = [] then (s, [Reply 200 (CheckJson True latest ''new version available'')])
              else (case latest of
                      None \<Rightarrow> (s, [Panicked])
                    | Some rel \<Rightarrow>
                        if isNewer (Version rel) current
                        then (s, [Reply 200 (CheckJson True latest ''new version available'')])
                        else (s, [Reply 200 (CheckJson False latest ''up to date'')]))))"

text \<open>
  \<open>handleDownload\<close> hands the request and the release's \<open>FilePath\<close> to
  \<open>http.ServeFile\<close> (the \<open>Content-Disposition\<close> header it sets first is left out).
  \<open>ServeFile(w, r, name)\<close> looks at the path of the request before it opens anything:
  it answers 400 when \<open>containsDotDot(r.URL.Path)\<close>, that is when one of the elements of
  the path, cut at \<open>/\<close> and at the backslash, is \<open>..\<close>; and \<open>serveFile\<close> redirects a
  path that ends in \<open>/index.html\<close> to \<open>./\<close> (the query string, which the redirect
  keeps, is left out). Otherwise it splits \<open>name\<close> with \<open>filepath.Split\<close> and opens the
  file part in \<open>http.Dir\<close> of the directory part: \<open>Dir.Open\<close> cleans the rooted file
  name, takes \<open>.\<close> for an empty directory and for an empty name, and opens the
  \<open>filepath.Join\<close> of the two; \<open>ServeFile_opens name\<close> is that path. (The file part of
  every path the program stores is \<open>algorithm\<close>, and the path is empty in a store read
  from the snapshot; the checks that later Go versions make on other file names are
  left out.)

  The file system the server reads: the regular files by path, the directories
  \<open>MkdirAll\<close> made, their ancestors, and the working directory \<open>.\<close>. A path that holds
  none of them does not exist, and \<open>ServeFile\<close> answers 404; open errors of other kinds
  are not part of the environment here.

  The handler is registered for the pattern \<open>/download/\<close> on the default \<open>ServeMux\<close>,
  which answers a request whose path is not canonical (an element \<open>.\<close> or \<open>..\<close>, a
  repeated slash) with a redirect of its own; only a CONNECT request reaches the handler
  with such a path. \<open>handleDownload\<close> is the handler on the path it receives.
\<close>

datatype fs_entry = Regular string | Directory | Missing

definition is_directory :: "server \<Rightarrow> string \<Rightarrow> bool" where
  "is_directory s p =
     (p = ''.'' \<or> (\<exists>d \<in> dirs s. d = p \<or> take (length p + 1) d = p @ ''/''))"

definition os_Stat :: "server \<Rightarrow> string \<Rightarrow> fs_entry" where
  "os_Stat s p =
     (case files s p of
        Some b \<Rightarrow> Regular b
      | None \<Rightarrow> if is_directory s p then Directory else Missing)"

definition isSlashRune :: "char \<Rightarrow> bool" where
  "isSlashRune c = (c = CHR ''/'' \<or> c = CHR 0x5C)"

definition containsDotDot :: "string \<Rightarrow> bool" where
  "containsDotDot v = (''..'' \<in> set (FieldsFunc v isSlashRune))"

definition Dir_Open :: "string \<Rightarrow> string \<Rightarrow> string" where
  "Dir_Open d name =
     (let p = tl (filepath_Clean (''/'' @ name));
          p1 = (if p = [] then ''.'' else p);
          dir = (if d = [] then ''.'' else d)
      in filepath_Join [dir, p1])"

definition ServeFile_opens :: "string \<Rightarrow> string" where
  "ServeFile_opens name = (case filepath_Split name of (d, file) \<Rightarrow> Dir_Open d file)"

definition serveFile :: "server \<Rightarrow> string \<Rightarrow> string \<Rightarrow> string \<Rightarrow> http_out list" where
  "serveFile s urlPath d name =
     (if HasSuffix urlPath ''/index.html'' then [Redirect ''./'']
      else (let fullName = Dir_Open d name in
        case os_Stat s fullName of
          Missing \<Rightarrow> [Reply 404 (Text ''404 page not found'')]
        | Directory \<Rightarrow> [ServeDirectory fullName]
        | Regular b \<Rightarrow> [ServeContent b]))"

definition ServeFile :: "server \<Rightarrow> string \<Rightarrow> string \<Rightarrow> http_out list" where
  "ServeFile s urlPath name =
     (if containsDotDot urlPath then [Reply 400 (Text ''invalid URL path'')]
      else (case filepath_Split name of (d, file) \<Rightarrow> serveFile s urlPath d file))"

definition handleDownload :: "string \<Rightarrow> server \<Rightarrow> server \<times> http_out list" where
  "handleDownload path s =
     (let parts = Split (TrimPrefix path ''/download/'') (CHR ''/'') in
      if parts = [] \<or> parts ! 0 = [] then (s, [Reply 400 (Text ''version required'')])
      else (let version = parts ! 0 in
        case ReleasesByVersion (store s) version of
          None \<Rightarrow> (s, [Reply 404 (Text ''unknown version'')])
        | Some rel \<Rightarrow> (s, ServeFile s path (FilePath rel))))"

text \<open>
  A start of the server process on the files an earlier process left: \<open>main\<close> makes the
  data and artifact directories, and \<open>loadStore\<close> decodes the snapshot file into the
  empty store (a missing snapshot is logged and the store stays empty).
\<close>

definition main_start :: "server \<Rightarrow> server" where
  "main_start s =
     (let s1 = s\<lparr>store := empty_store, dirs := insert artDir (insert dataDir (dirs s))\<rparr>
      in case snapshot s of
           None \<Rightarrow> s1
         | Some sn \<Rightarrow> s1\<lparr>store := sn\<rparr>)"

subsection \<open>Controller of the platform server\<close>

text \<open>
  \<open>ResponseFailure\<close> writes the JSON failure body with the HTTP status of the error
  code: \<open>ErrParam\<close> is 400, \<open>ErrInternal\<close> is 500; the error codes have no other class.
\<close>

datatype ErrCode = OK | ErrParam | ErrInternal

fun errSpec_http :: "ErrCode \<Rightarrow> nat" where
  "errSpec_http OK = 200"
| "errSpec_http ErrParam = 400"
| "errSpec_http ErrInternal = 500"

fun errSpec_msg :: "ErrCode \<Rightarrow> string" where
  "errSpec_msg OK = ''OK''"
| "errSpec_msg ErrParam = ''Bad Request''"
| "errSpec_msg ErrInternal = ''Internal Server Error''"

definition ResponseFailure :: "ErrCode \<Rightarrow> string \<Rightarrow> http_out" where
  "ResponseFailure c detail = Reply (errSpec_http c) (FailureJson (errSpec_http c) (errSpec_msg c) detail)"

definition Publish ::
  "(string \<Rightarrow> string) \<Rightarrow> pub_env \<Rightarrow> publish_req \<Rightarrow> server \<Rightarrow> server \<times> http_out list" where
  "Publish H e r s =
     (let version = TrimSpace (form_version r) in
      if version = [] then (s, [ResponseFailure ErrParam ''version is required''])
      else (let channel0 = TrimSpace (form_channel r);
                channel = (if channel0 = [] then ''stable'' else channel0);
                notes = TrimSpace (form_notes r)
        in case form_file r of
             None \<Rightarrow> (s, [ResponseFailure ErrParam ''missing file: ''])
           | Some content \<Rightarrow>
               (let vDir = filepath_Join [artDir, version] in
                if mkdir_fails e then (s, [ResponseFailure ErrInternal []])
                else (let s1 = s\<lparr>dirs := insert vDir (dirs s)\<rparr>;
                          dstPath = filepath_Join [vDir, ''algorithm'']
                  in if create_fails e then (s1, [ResponseFailure ErrInternal ''create dst: ''])
                     else (let s2 = s1\<lparr>files := (files s1)(dstPath \<mapsto> [])\<rparr> in
                       if open_src_fails e then (s2, [ResponseFailure ErrInternal ''open upload: ''])
                       else (case copy_err e of
                          Some k \<Rightarrow>
                            (s2\<lparr>files := (files s2)(dstPath \<mapsto> take k content)\<rparr>,
                             [ResponseFailure ErrInternal ''hash: ''])
                        | None \<Rightarrow>
                            (let s3 = s2\<lparr>files := (files s2)(dstPath \<mapsto> content)\<rparr>;
                                 sum = H content;
                                 url = ''/download/'' @ version;
                                 rel = \<lparr>Version = version, Channel = channel, URL = url,
                                        Sha256 = sum, Notes = notes, CreatedAt = now e,
                                        FilePath = dstPath\<rparr>;
                                 s4 = put_release version channel rel s3
                             in case saveStore e s4 of
                                  (False, s5) \<Rightarrow> (s5, [ResponseFailure ErrInternal ''save metadata: ''])
                                | (True, s5) \<Rightarrow> (s5, [Reply 200 (ReleaseJson rel)]))))))))"

text \<open>
  The earlier revision of \<open>Publish\<close>. \<open>ResponseFailure\<close> is not followed by \<open>return\<close>
  after the version, file and directory checks, so the handler goes on; with no file
  header, \<open>fileHeader.Open()\<close> dereferences nil. The copy reads from \<open>f\<close>, the
  destination file opened again after \<open>os.Create\<close> truncated it, not from the upload
  \<open>src\<close>.
\<close>

definition Publish_v1 ::
  "(string \<Rightarrow> string) \<Rightarrow> pub_env \<Rightarrow> publish_req \<Rightarrow> server \<Rightarrow> server \<times> http_out list" where
  "Publish_v1 H e r s =
     (let version = TrimSpace (form_version r);
          o1 = (if version = [] then [ResponseFailure ErrParam ''version is required''] else []);
          channel0 = TrimSpace (form_channel r);
          channel = (if channel0 = [] then ''stable'' else channel0);
          notes = TrimSpace (form_notes r);
          o2 = o1 @ (case form_file r of
                       None \<Rightarrow> [ResponseFailure ErrParam ''missing file: '']
                     | Some content \<Rightarrow> []);
          vDir = filepath_Join [artDir, version];
          s1 = (if mkdir_fails e then s else s\<lparr>dirs := insert vDir (dirs s)\<rparr>);
          o3 = o2 @ (if mkdir_fails e then [ResponseFailure ErrInternal []] else []);
          dstPath = filepath_Join [vDir, ''algorithm'']
      in if create_fails e then (s1, o3 @ [ResponseFailure ErrInternal ''create dst: ''])
         else (let s2 = s1\<lparr>files := (files s1)(dstPath \<mapsto> [])\<rparr> in
           if open_dst_fails e then (s2, o3 @ [ResponseFailure ErrInternal ''open dst: ''])
           else (case form_file r of
              None \<Rightarrow> (s2, o3 @ [Panicked])
            | Some content \<Rightarrow>
                if open_src_fails e then (s2, o3 @ [ResponseFailure ErrInternal ''open upload: ''])
                else (let f = (case files s2 dstPath of None \<Rightarrow> [] | Some b \<Rightarrow> b) in
                  case copy_err e of
                    Some k \<Rightarrow>
                      (s2\<lparr>files := (files s2)(dstPath \<mapsto> take k f)\<rparr>,
                       o3 @ [ResponseFailure ErrInternal ''hash: ''])
                  | None \<Rightarrow>
                      (let s3 = s2\<lparr>files := (files s2)(dstPath \<mapsto> f)\<rparr>;
                           sum = H f;
                           url = ''/download/'' @ version;
                           rel = \<lparr>Version = version, Channel = channel, URL = url,
                                  Sha256 = sum, Notes = notes, CreatedAt = now e,
                                  FilePath = dstPath\<rparr>;
                           s4 = put_release version channel rel s3
                       in case saveStore e s4 of
                            (False, s5) \<Rightarrow> (s5, o3 @ [ResponseFailure ErrInternal ''save metadata: ''])
                          | (True, s5) \<Rightarrow> (s5, o3 @ [Reply 200 (ReleaseJson rel)]))))))"

definition Check :: "check_req \<Rightarrow> server \<Rightarrow> server \<times> http_out list" where
  "Check r s0 =
     (let s = snd (loadStore s0);
          channel = DefaultQuery (q_channel r) ''stable'';
          current = Get (q_current r)
      in case LatestByChannel (store s) channel of
           None \<Rightarrow> (s, [ResponseFailure ErrInternal ''no release in channel''])
         | Some latestVersion \<Rightarrow>
             (let latest = ReleasesByVersion (store s) latestVersion in
              if current = [] then (s, [Reply 200 (CheckJson True latest ''new version available'')])
              else (case latest of
                      None \<Rightarrow> (s, [Panicked])
                    | Some rel \<Rightarrow>
                        if isNewer (Version rel) current
                        then (s, [Reply 200 (CheckJson True latest ''new version available'')])
                        else (s, [Reply 200 (CheckJson False latest ''up to date'')]))))"

definition status_of :: "http_out list \<Rightarrow> nat option" where
  "status_of outs =
     (case outs of
        Reply code b # rest \<Rightarrow> Some code
      | _ \<Rightarrow> None)"


subsection \<open>Sequences of operations\<close>

text \<open>
  The store invariant of the specification: every value of \<open>LatestByChannel\<close> is a key
  of \<open>ReleasesByVersion\<close>. The controller's \<open>Check\<close> reloads the store from the snapshot
  file, so the invariant of the server covers the snapshot too.
\<close>

definition store_inv :: "Store \<Rightarrow> bool" where
  "store_inv st = (ran (LatestByChannel st) \<subseteq> dom (ReleasesByVersion st))"

definition server_inv :: "server \<Rightarrow> bool" where
  "server_inv s = (store_inv (store s) \<and> (case snapshot s of None \<Rightarrow> True | Some sn \<Rightarrow> store_inv sn))"

definition init_server :: server where
  "init_server = \<lparr>store = empty_store, snapshot = None, dirs = {}, files = Map.empty\<rparr>"

datatype standalone_op =
    DoPublish pub_env publish_req
  | DoCheck check_req
  | DoDownload string

fun standalone_step :: "(string \<Rightarrow> string) \<Rightarrow> server \<Rightarrow> standalone_op \<Rightarrow> server" where
  "standalone_step H s (DoPublish e r) = fst (handlePublish H e r s)"
| "standalone_step H s (DoCheck r) = fst (handleCheck r s)"
| "standalone_step H s (DoDownload path) = fst (handleDownload path s)"

definition standalone_run :: "(string \<Rightarrow> string) \<Rightarrow> standalone_op list \<Rightarrow> server \<Rightarrow> server" where
  "standalone_run H ops s = foldl (standalone_step H) s ops"

datatype controller_op =
    CtlPublish pub_env publish_req
  | CtlPublish_v1 pub_env publish_req
  | CtlCheck check_req

fun controller_step :: "(string \<Rightarrow> string) \<Rightarrow> server \<Rightarrow> controller_op \<Rightarrow> server" where
  "controller_step H s (CtlPublish e r) = fst (Publish H e r s)"
| "controller_step H s (CtlPublish_v1 e r) = fst (Publish_v1 H e r s)"
| "controller_step H s (CtlCheck r) = fst (Check r s)"

definition controller_run :: "(string \<Rightarrow> string) \<Rightarrow> controller_op list \<Rightarrow> server \<Rightarrow> server" where
  "controller_run H ops s = foldl (controller_step H) s ops"

section \<open>Update client: poller, downloader and verifier, installer, supervisor\<close>

text \<open>
  The client keeps everything in its install directory: the temporary download
  \<open>download_<version>\<close>, the installed artifacts \<open>algo_<version>\<close>, the symlink
  \<open>algo_current\<close> and the record \<open>current_version\<close>. The directory is a map from
  paths (as \<open>filepath.Join\<close> returns them) to nodes: a regular file with its content
  and executable bit, or a symlink with its target. \<open>os.Create\<close>, \<open>os.Open\<close>,
  \<open>os.ReadFile\<close>, \<open>os.WriteFile\<close>, \<open>os.Chmod\<close> and the start of a command follow
  a symlink found at the path, as the kernel does: up to forty links in a row, a
  relative target being taken from the directory of the link (\<open>link_target\<close>, which
  gives the path in the cleaned form of the keys of the map); they act on the path the
  links lead to, which holds a regular file or nothing. \<open>os.Remove\<close>, \<open>os.Rename\<close>
  and \<open>os.Symlink\<close> act on what the path itself holds. Symlinks in the directories of
  a path are not part of the map. The supervisor state is the tracked command (the
  path it was started from) and the list of paths started so far; signalling the old
  process has no further effect here.

  The environment of one cycle: the server's answer to the check request (transport
  error, or status, body and the decoded \<open>CheckResp\<close>, \<open>None\<close> when the body does not
  decode), its answer to the download request (transport error, or status, body and
  \<open>Some k\<close> when the copy to the file fails after \<open>k\<close> bytes), and which system calls
  fail.
\<close>

record Config =
  ServerURL :: string
  DeviceID :: string
  ConfigChannel :: string
  InstallDir :: string
  CheckEvery :: int

record ClientRelease =
  rVersion :: string
  rChannel :: string
  rURL :: string
  rSha256 :: string
  rNotes :: string

record CheckResp =
  UpdateAvailable :: bool
  Latest :: "ClientRelease option"
  Message :: string

datatype node = File string bool | Symlink string

record client =
  fs :: "string \<rightharpoonup> node"
  currentCmd :: "string option"
  started :: "string list"

datatype check_answer = CheckGetErr | CheckHttp nat string "CheckResp option"

datatype download_answer = DownloadGetErr | DownloadHttp nat string "nat option"

datatype write_fault = WriteOk | WriteOpenErr | WriteErr nat

record cycle_env =
  check_reply :: check_answer
  download_reply :: download_answer
  tmp_create_fails :: bool
  verify_open_fails :: bool
  verify_read_fails :: bool
  rename_fails :: bool
  chmod_fails :: bool
  symlink_fails :: bool
  start_fails :: bool
  record_write :: write_fault

datatype cycle_error =
    TransportError
  | CheckFailed string
  | DecodeError
  | DownloadFailed string
  | CreateError
  | CopyError
  | OpenError
  | ReadError
  | Sha256Mismatch
  | RenameError
  | ChmodError
  | SymlinkError
  | StartError
  | WriteError

subsection \<open>File operations\<close>

definition link_target :: "string \<Rightarrow> string \<Rightarrow> string" where
  "link_target link target =
     (if target \<noteq> [] \<and> hd target = CHR ''/'' then filepath_Clean target
      else filepath_Join [fst (filepath_Split link), target])"

text \<open>
  \<open>resolve n f p\<close>: the path that \<open>p\<close> leads to when at most \<open>n\<close> links are followed;
  \<open>None\<close> when there are more (the kernel's \<open>ELOOP\<close> after forty).
\<close>

fun resolve :: "nat \<Rightarrow> (string \<rightharpoonup> node) \<Rightarrow> string \<Rightarrow> string option" where
  "resolve 0 f p =
     (case f p of
        Some (Symlink target) \<Rightarrow> None
      | _ \<Rightarrow> Some p)"
| "resolve (Suc n) f p =
     (case f p of
        Some (Symlink target) \<Rightarrow> resolve n f (link_target p target)
      | _ \<Rightarrow> Some p)"

definition follow_links :: "client \<Rightarrow> string \<Rightarrow> string option" where
  "follow_links c p = resolve 40 (fs c) p"

definition exec_bit :: "client \<Rightarrow> string \<Rightarrow> bool" where
  "exec_bit c p = (case fs c p of Some (File b x) \<Rightarrow> x | _ \<Rightarrow> False)"

text \<open>
  \<open>os.Create\<close> opens the file the path leads to, made empty, creating it when it is
  missing; \<open>put_file q b\<close> is the state once \<open>b\<close> has been written to the file opened
  at \<open>q\<close>.
\<close>

definition os_Create :: "bool \<Rightarrow> string \<Rightarrow> client \<Rightarrow> string option" where
  "os_Create fails p c = (if fails then None else follow_links c p)"

definition put_file :: "string \<Rightarrow> string \<Rightarrow> client \<Rightarrow> client" where
  "put_file q b c = c\<lparr>fs := (fs c)(q \<mapsto> File b (exec_bit c q))\<rparr>"

definition os_Remove :: "string \<Rightarrow> client \<Rightarrow> client" where
  "os_Remove p c = c\<lparr>fs := (fs c)(p := None)\<rparr>"

definition os_Rename :: "bool \<Rightarrow> string \<Rightarrow> string \<Rightarrow> client \<Rightarrow> client option" where
  "os_Rename fails oldpath newpath c =
     (if fails then None
      else (case fs c oldpath of
              None \<Rightarrow> None
            | Some n \<Rightarrow>
                if oldpath = newpath then Some c
                else Some (c\<lparr>fs := ((fs c)(newpath \<mapsto> n))(oldpath := None)\<rparr>)))"

definition os_Chmod_exec :: "bool \<Rightarrow> string \<Rightarrow> client \<Rightarrow> client option" where
  "os_Chmod_exec fails p c =
     (if fails then None
      else (case follow_links c p of
              None \<Rightarrow> None
            | Some q \<Rightarrow>
                (case fs c q of
                   Some (File b x) \<Rightarrow> Some (c\<lparr>fs := (fs c)(q \<mapsto> File b True)\<rparr>)
                 | _ \<Rightarrow> None)))"

definition os_Symlink :: "bool \<Rightarrow> string \<Rightarrow> string \<Rightarrow> client \<Rightarrow> client option" where
  "os_Symlink fails target link c =
     (if fails then None
      else (case fs c link of
              None \<Rightarrow> Some (c\<lparr>fs := (fs c)(link \<mapsto> Symlink target)\<rparr>)
            | Some n \<Rightarrow> None))"

definition os_WriteFile :: "write_fault \<Rightarrow> string \<Rightarrow> string \<Rightarrow> client \<Rightarrow> cycle_error option \<times> client" where
  "os_WriteFile fault p b c =
     (case fault of
        WriteOpenErr \<Rightarrow> (Some WriteError, c)
      | WriteOk \<Rightarrow>
          (case follow_links c p of
             None \<Rightarrow> (Some WriteError, c)
           | Some q \<Rightarrow> (None, put_file q b c))
      | WriteErr k \<Rightarrow>
          (case follow_links c p of
             None \<Rightarrow> (Some WriteError, c)
           | Some q \<Rightarrow> (Some WriteError, put_file q (take k b) c)))"

subsection \<open>Process Supervisor\<close>

text \<open>
  \<open>cmd.Start()\<close> needs an executable regular file where the path of the command leads;
  \<open>start_fails\<close> stands for every other failure of the start.
\<close>

definition executable :: "client \<Rightarrow> string \<Rightarrow> bool" where
  "executable c bin =
     (case follow_links c bin of
        None \<Rightarrow> False
      | Some q \<Rightarrow> (case fs c q of Some (File b x) \<Rightarrow> x | _ \<Rightarrow> False))"

definition startAlgorithm :: "cycle_env \<Rightarrow> string \<Rightarrow> client \<Rightarrow> cycle_error option \<times> client" where
  "startAlgorithm e bin c =
     (if start_fails e \<or> \<not> executable c bin then (Some StartError, c)
      else (None, c\<lparr>currentCmd := Some bin, started := bin # started c\<rparr>))"

definition stopAlgorithm :: "client \<Rightarrow> cycle_error option \<times> client" where
  "stopAlgorithm c =
     (case currentCmd c of
        None \<Rightarrow> (None, c)
      | Some cmd \<Rightarrow> (None, c\<lparr>currentCmd := None\<rparr>))"

definition restartAlgorithm :: "cycle_env \<Rightarrow> string \<Rightarrow> client \<Rightarrow> cycle_error option \<times> client" where
  "restartAlgorithm e bin c =
     (case stopAlgorithm c of
        (Some err, c1) \<Rightarrow> (Some err, c1)
      | (None, c1) \<Rightarrow> startAlgorithm e bin c1)"

subsection \<open>Downloader and Verifier\<close>

definition downloadToFile :: "cycle_env \<Rightarrow> string \<Rightarrow> client \<Rightarrow> cycle_error option \<times> client" where
  "downloadToFile e dst c =
     (case download_reply e of
        DownloadGetErr \<Rightarrow> (Some TransportError, c)
      | DownloadHttp code b copy_fault \<Rightarrow>
          if code \<noteq> 200 then (Some (DownloadFailed b), c)
          else (case os_Create (tmp_create_fails e) dst c of
                  None \<Rightarrow> (Some CreateError, c)
                | Some q \<Rightarrow>
                    (case copy_fault of
                       Some k \<Rightarrow> (Some CopyError, put_file q (take k b) c)
                     | None \<Rightarrow> (None, put_file q b c))))"

definition verifySha256 ::
  "(string \<Rightarrow> string) \<Rightarrow> cycle_env \<Rightarrow> string \<Rightarrow> string \<Rightarrow> client \<Rightarrow> cycle_error + bool" where
  "verifySha256 H e fp want c =
     (if verify_open_fails e then Inl OpenError
      else (case follow_links c fp of
              None \<Rightarrow> Inl OpenError
            | Some q \<Rightarrow>
                (case fs c q of
                   Some (File b x) \<Rightarrow>
                     if verify_read_fails e then Inl ReadError
                     else (let got = H b in Inr (got = want))
                 | _ \<Rightarrow> Inl OpenError)))"

subsection \<open>One poll cycle\<close>

definition currentVerFP :: "Config \<Rightarrow> string" where
  "currentVerFP cfg = filepath_Join [InstallDir cfg, ''current_version'']"

definition readCurrentVersion :: "Config \<Rightarrow> client \<Rightarrow> string" where
  "readCurrentVersion cfg c =
     (case follow_links c (currentVerFP cfg) of
        None \<Rightarrow> []
      | Some q \<Rightarrow>
          (case fs c q of
             Some (File b x) \<Rightarrow> b
           | _ \<Rightarrow> []))"

definition runOnce ::
  "(string \<Rightarrow> string) \<Rightarrow> Config \<Rightarrow> string \<Rightarrow> cycle_env \<Rightarrow> client \<Rightarrow> cycle_error option \<times> client" where
  "runOnce H cfg current e c =
     (case check_reply e of
        CheckGetErr \<Rightarrow> (Some TransportError, c)
      | CheckHttp code b decoded \<Rightarrow>
          if code \<noteq> 200 then (Some (CheckFailed b), c)
          else (case decoded of
             None \<Rightarrow> (Some DecodeError, c)
           | Some ck \<Rightarrow>
               if \<not> UpdateAvailable ck then (None, c)
               else (case Latest ck of
                  None \<Rightarrow> (None, c)
                | Some latest \<Rightarrow>
                    (let tmpFile = filepath_Join [InstallDir cfg, ''download_'' @ rVersion latest] in
                     case downloadToFile e tmpFile c of
                       (Some err, c1) \<Rightarrow> (Some err, c1)
                     | (None, c1) \<Rightarrow>
                         (case verifySha256 H e tmpFile (rSha256 latest) c1 of
                            Inl err \<Rightarrow> (Some err, c1)
                          | Inr ok \<Rightarrow>
                              if \<not> ok then (Some Sha256Mismatch, os_Remove tmpFile c1)
                              else (let dst = filepath_Join [InstallDir cfg, ''algo_'' @ rVersion latest] in
                                case os_Rename (rename_fails e) tmpFile dst c1 of
                                  None \<Rightarrow> (Some RenameError, c1)
                                | Some c2 \<Rightarrow>
                                    (case os_Chmod_exec (chmod_fails e) dst c2 of
                                       None \<Rightarrow> (Some ChmodError, c2)
                                     | Some c3 \<Rightarrow>
                                         (let currLink = filepath_Join [InstallDir cfg, ''algo_current''];
                                              c4 = os_Remove currLink c3
                                          in case os_Symlink (symlink_fails e) dst currLink c4 of
                                               None \<Rightarrow> (Some SymlinkError, c4)
                                             | Some c5 \<Rightarrow>
                                                 (case restartAlgorithm e currLink c5 of
                                                    (Some err, c6) \<Rightarrow> (Some err, c6)
                                                  | (None, c6) \<Rightarrow>
                                                      os_WriteFile (record_write e) (currentVerFP cfg)
                                                        (rVersion latest) c6)))))))))"

text \<open>The body of the loop in \<open>main\<close>: \<open>runOnce(cfg, readCurrentVersion())\<close>.\<close>

definition poll_cycle ::
  "(string \<Rightarrow> string) \<Rightarrow> Config \<Rightarrow> cycle_env \<Rightarrow> client \<Rightarrow> cycle_error option \<times> client" where
  "poll_cycle H cfg e c = runOnce H cfg (readCurrentVersion cfg c) e c"

subsection \<open>Release versions that are path elements\<close>

text \<open>
  The client builds its file names from the version the server sends. A version without
  \<open>/\<close> gives a single path element; \<open>join_dir d\<close> is what \<open>filepath.Join\<close> puts in
  front of such an element for the directory \<open>d\<close>. \<open>offered_version\<close> is the version of
  the release in the server's answer to the check request.
\<close>

definition plain_element :: "string \<Rightarrow> bool" where
  "plain_element e = (e \<noteq> [] \<and> CHR ''/'' \<notin> set e \<and> e \<noteq> ''.'' \<and> e \<noteq> ''..'')"

definition join_dir :: "string \<Rightarrow> string" where
  "join_dir d =
     (if d = [] then []
      else (let rooted = (hd d = CHR ''/'');
                st = foldl (clean_step rooted) [] (Split d (CHR ''/''))
            in (if rooted then ''/'' else []) @
               (if st = [] then [] else strings_Join (rev st) ''/'' @ ''/'')))"

definition offered_version :: "cycle_env \<Rightarrow> string option" where
  "offered_version e =
     (case check_reply e of
        CheckGetErr \<Rightarrow> None
      | CheckHttp code b decoded \<Rightarrow>
          (case decoded of None \<Rightarrow> None | Some ck \<Rightarrow> map_option rVersion (Latest ck)))"

definition plain_offer :: "cycle_env \<Rightarrow> bool" where
  "plain_offer e = (case offered_version e of None \<Rightarrow> True | Some v \<Rightarrow> CHR ''/'' \<notin> set v)"

text \<open>
  \<open>is_link c p\<close>: the path \<open>p\<close> holds a symlink. \<open>no_link_at_download\<close>: the path of
  the temporary download file of the offered release holds none.
\<close>

definition is_link :: "client \<Rightarrow> string \<Rightarrow> bool" where
  "is_link c p = (case fs c p of Some (Symlink target) \<Rightarrow> True | _ \<Rightarrow> False)"

definition no_link_at_download :: "Config \<Rightarrow> cycle_env \<Rightarrow> client \<Rightarrow> bool" where
  "no_link_at_download cfg e c =
     (case offered_version e of
        None \<Rightarrow> True
      | Some v \<Rightarrow> \<not> is_link c (filepath_Join [InstallDir cfg, ''download_'' @ v]))"

subsection \<open>Concrete inputs\<close>

text \<open>
  An environment in which no system call fails, a well-formed publish request, and a
  stand-in for the hash function, for evaluating the handlers on concrete inputs.
\<close>

definition env_ok :: pub_env where
  "env_ok = \<lparr>mkdir_fails = False, create_fails = False, open_dst_fails = False,
              open_src_fails = False, copy_err = None, save_fails = False, now = 0\<rparr>"

definition publish_1_0_0 :: publish_req where
  "publish_1_0_0 = \<lparr>req_method = ''POST'', multipart_ok = True, form_version = ''1.0.0'',
                     form_channel = [], form_notes = [], form_file = Some ''algo-bytes''\<rparr>"

definition toy_hash :: "string \<Rightarrow> string" where
  "toy_hash b = ''h:'' @ b"

definition release_1_0_0 :: "string \<Rightarrow> Release" where
  "release_1_0_0 digest =
     \<lparr>Version = ''1.0.0'', Channel = ''stable'', URL = ''/download/1.0.0'', Sha256 = digest,
      Notes = [], CreatedAt = 0, FilePath = ''../../artifacts/1.0.0/algorithm''\<rparr>"

text \<open>
  A client that has recorded version 1.0.0, a cycle environment in which the server
  offers the given release and serves the given bytes, and no system call fails.
\<close>

definition config_0 :: Config where
  "config_0 = \<lparr>ServerURL = ''http://server'', DeviceID = ''d1'', ConfigChannel = ''stable'',
                InstallDir = ''inst'', CheckEvery = 10\<rparr>"

definition client_1_0_0 :: client where
  "client_1_0_0 = \<lparr>fs = [''inst/current_version'' \<mapsto> File ''1.0.0'' False],
                    currentCmd = None, started = []\<rparr>"

text \<open>The same with an absolute install directory.\<close>

definition config_abs :: Config where
  "config_abs = \<lparr>ServerURL = ''http://server'', DeviceID = ''d1'', ConfigChannel = ''stable'',
                  InstallDir = ''/opt/ota'', CheckEvery = 10\<rparr>"

definition client_abs :: client where
  "client_abs = \<lparr>fs = [''/opt/ota/current_version'' \<mapsto> File ''1.0.0'' False],
                  currentCmd = None, started = []\<rparr>"

definition offer :: "string \<Rightarrow> string \<Rightarrow> string \<Rightarrow> nat option \<Rightarrow> cycle_env" where
  "offer version digest served copy_fault =
     \<lparr>check_reply = CheckHttp 200 []
        (Some \<lparr>UpdateAvailable = True,
               Latest = Some \<lparr>rVersion = version, rChannel = ''stable'',
                               rURL = ''/download/'' @ version, rSha256 = digest, rNotes = []\<rparr>,
               Message = ''new version available''\<rparr>),
      download_reply = DownloadHttp 200 served copy_fault,
      tmp_create_fails = False, verify_open_fails = False, verify_read_fails = False,
      rename_fails = False, chmod_fails = False, symlink_fails = False, start_fails = False,
      record_write = WriteOk\<rparr>"

section \<open>Properties of the library functions\<close>

lemma takeWhile_no_sep: "sep \<notin> set s \<Longrightarrow> takeWhile (\<lambda>c. c \<noteq> sep) s = s"
  by (induction s) auto

lemma Split_unfold:
  "Split s sep = (if sep \<in> set s
     then takeWhile (\<lambda>c. c \<noteq> sep) s # Split (tl (dropWhile (\<lambda>c. c \<noteq> sep) s)) sep
     else [s])"
  by (induction s) (auto split: list.splits)

lemma Split_not_Nil: "Split s sep \<noteq> []"
  by (subst Split_unfold) simp

lemma Split_first: "Split s sep ! 0 = takeWhile (\<lambda>c. c \<noteq> sep) s"
  by (subst Split_unfold) (simp add: takeWhile_no_sep)

lemma SplitN_2_first: "SplitN s sep 2 ! 0 = takeWhile (\<lambda>c. c \<noteq> sep) s"
  by (simp add: numeral_2_eq_2 takeWhile_no_sep)

lemma Split_chars: "p \<in> set (Split s sep) \<Longrightarrow> set p \<subseteq> set s"
proof (induction s arbitrary: p)
  case Nil
  then show ?case by simp
next
  case (Cons a s)
  show ?case
  proof (cases "a = sep")
    case True
    with Cons show ?thesis by auto
  next
    case False
    obtain q qs where sp: "Split s sep = q # qs"
      using Split_not_Nil [of s sep] by (cases "Split s sep") auto
    from Cons.prems False sp have "p = a # q \<or> p \<in> set qs" by simp
    then show ?thesis
    proof
      assume "p = a # q"
      moreover have "set q \<subseteq> set s" using Cons.IH [of q] sp by simp
      ultimately show ?thesis by auto
    next
      assume "p \<in> set qs"
      then have "set p \<subseteq> set s" using Cons.IH [of p] sp by simp
      then show ?thesis by auto
    qed
  qed
qed

subsection \<open>Paths joined from a directory and one element\<close>

lemma Split_append_sep: "Split (a @ sep # b) sep = Split a sep @ Split b sep"
proof (induction a)
  case Nil
  show ?case by simp
next
  case (Cons c a)
  obtain p ps where sp: "Split a sep = p # ps"
    using Split_not_Nil [of a sep] by (cases "Split a sep") auto
  show ?case using Cons sp by simp
qed

lemma Split_no_sep: "sep \<notin> set e \<Longrightarrow> Split e sep = [e]"
  by (subst Split_unfold) simp

lemma strings_Join_snoc:
  "strings_Join (xs @ [e]) sep = (if xs = [] then e else strings_Join xs sep @ sep @ e)"
  by (induction xs sep rule: strings_Join.induct) auto

lemma clean_step_plain: "plain_element e \<Longrightarrow> clean_step rooted st e = e # st"
  by (simp add: clean_step_def plain_element_def)

lemma Join_plain:
  assumes "plain_element e"
  shows "filepath_Join [d, e] = join_dir d @ e"
proof (cases "d = []")
  case True
  from assms have ne: "e \<noteq> []" and ns: "CHR ''/'' \<notin> set e" by (simp_all add: plain_element_def)
  from ne ns have "hd e \<noteq> CHR ''/''" by (cases e) auto
  then show ?thesis using True ne assms
    by (simp add: filepath_Join_def filepath_Clean_def join_dir_def Split_no_sep [OF ns]
        clean_step_plain)
next
  case False
  from assms have ne: "e \<noteq> []" and ns: "CHR ''/'' \<notin> set e" by (simp_all add: plain_element_def)
  have sp: "Split (d @ CHR ''/'' # e) (CHR ''/'') = Split d (CHR ''/'') @ [e]"
    by (simp add: Split_append_sep Split_no_sep [OF ns])
  have hd: "hd (d @ CHR ''/'' # e) = hd d" using False by simp
  show ?thesis using False ne assms
    by (simp add: filepath_Join_def filepath_Clean_def join_dir_def sp hd clean_step_plain
        strings_Join_snoc Let_def)
qed

lemma Join_plain_distinct:
  "plain_element e1 \<Longrightarrow> plain_element e2 \<Longrightarrow> e1 \<noteq> e2 \<Longrightarrow>
   filepath_Join [d, e1] \<noteq> filepath_Join [d, e2]"
  by (simp add: Join_plain)

subsection \<open>What Atoi returns\<close>

lemma dec_from_ge: "n \<le> dec_from n ds"
  unfolding dec_from_def
proof (induction ds arbitrary: n)
  case Nil
  show ?case by simp
next
  case (Cons c cs)
  have "n \<le> n * 10 + digit_val c" by simp
  also have "\<dots> \<le> foldl (\<lambda>a c. a * 10 + digit_val c) (n * 10 + digit_val c) cs"
    by (rule Cons)
  finally show ?case by simp
qed

lemma ParseUint_loop_char:
  "n \<le> maxUint64 \<Longrightarrow>
   ParseUint_loop n cs =
     (let d = takeWhile is_digit cs in
      if dec_from n d > maxUint64 then (maxUint64, Some ErrRange)
      else if d \<noteq> cs then (0, Some ErrSyntax)
      else (dec_from n d, None))"
proof (induction cs arbitrary: n)
  case Nil
  then show ?case by (simp add: dec_from_def)
next
  case (Cons c cs)
  show ?case
  proof (cases "is_digit c")
    case False
    with Cons.prems show ?thesis by (simp add: dec_from_def)
  next
    case dig: True
    have step: "dec_from n (c # takeWhile is_digit cs)
        = dec_from (n * 10 + digit_val c) (takeWhile is_digit cs)"
      by (simp add: dec_from_def)
    show ?thesis
    proof (cases "n \<ge> maxUint64 div 10 + 1")
      case True
      then have "n * 10 + digit_val c > maxUint64" by (simp add: maxUint64_def)
      with dec_from_ge [of "n * 10 + digit_val c" "takeWhile is_digit cs"]
      have "dec_from n (c # takeWhile is_digit cs) > maxUint64" by (simp add: step)
      with dig True show ?thesis by simp
    next
      case small: False
      show ?thesis
      proof (cases "n * 10 + digit_val c > maxUint64")
        case True
        with dec_from_ge [of "n * 10 + digit_val c" "takeWhile is_digit cs"]
        have "dec_from n (c # takeWhile is_digit cs) > maxUint64" by (simp add: step)
        with dig small True show ?thesis by (simp add: Let_def)
      next
        case False
        then have le: "n * 10 + digit_val c \<le> maxUint64" by simp
        show ?thesis using dig small False Cons.IH [OF le]
          by (simp add: Let_def step)
      qed
    qed
  qed
qed

lemma ParseUint_char:
  "ParseUint q =
     (let d = takeWhile is_digit q in
      if dec d > maxUint64 then (maxUint64, Some ErrRange)
      else if q = [] \<or> d \<noteq> q then (0, Some ErrSyntax)
      else (dec d, None))"
proof (cases "q = []")
  case True
  then show ?thesis by (simp add: ParseUint_def dec_def)
next
  case False
  have "(0::nat) \<le> maxUint64" by simp
  from ParseUint_loop_char [OF this, of q] False show ?thesis
    by (simp add: ParseUint_def dec_def dec_from_def Let_def)
qed

lemma Atoi_component:
  assumes "CHR ''-'' \<notin> set p"
  shows "fst (Atoi p) = component (Some p)"
proof (cases "p = []")
  case True
  then show ?thesis by (simp add: Atoi_def ParseInt_def component_def dec_def maxUint64_def)
next
  case False
  with assms have nm: "hd p \<noteq> CHR ''-''" by (cases p) auto
  define q where "q = (if hd p = CHR ''+'' then tl p else p)"
  have "fst (Atoi p) = (let r = ParseUint q in
          if snd r = Some ErrSyntax then 0
          else if fst r \<ge> 2 ^ 63 then 2 ^ 63 - 1 else int (fst r))"
    using False nm by (simp add: Atoi_def ParseInt_def q_def Let_def)
  also have "\<dots> = component (Some p)"
    using False
    by (simp add: ParseUint_char component_def q_def [symmetric] Let_def maxUint64_def min_def)
  finally show ?thesis .
qed

section \<open>Version Comparator: properties\<close>

lemma segment_Split:
  "segment i s = (if i < length (Split s (CHR ''.'')) then Some (Split s (CHR ''.'') ! i) else None)"
proof (induction i arbitrary: s)
  case 0
  show ?case by (subst (1 2) Split_unfold) (simp add: takeWhile_no_sep)
next
  case (Suc i)
  show ?case by (subst (1 2) Split_unfold) (simp add: Suc)
qed

lemma segment_2:
  "segment 2 s =
     (if CHR ''.'' \<in> set s then segment 1 (tl (dropWhile (\<lambda>c. c \<noteq> CHR ''.'') s)) else None)"
  by (simp add: numeral_2_eq_2)

lemma parse_version_triplet: "parse s = version_triplet s"
proof -
  define pre where "pre = takeWhile (\<lambda>c. c \<noteq> CHR ''-'') s"
  have nodash: "CHR ''-'' \<notin> set pre"
    unfolding pre_def by (auto dest: set_takeWhileD)
  have g: "get (Split pre (CHR ''.'')) i = component (segment i pre)" for i
  proof (cases "i < length (Split pre (CHR ''.''))")
    case True
    then have "Split pre (CHR ''.'') ! i \<in> set (Split pre (CHR ''.''))" by simp
    from Split_chars [OF this] nodash
    have "CHR ''-'' \<notin> set (Split pre (CHR ''.'') ! i)" by auto
    from Atoi_component [OF this] True show ?thesis
      by (simp add: get_def segment_Split)
  next
    case False
    then show ?thesis by (simp add: get_def segment_Split component_def)
  qed
  show ?thesis
    by (simp add: parse_def version_triplet_def SplitN_2_first pre_def [symmetric] g Let_def)
qed

lemma isNewer_triple: "isNewer a b = triple_gt (version_triplet a) (version_triplet b)"
  by (auto simp add: isNewer_def triple_gt_def parse_version_triplet split: prod.splits)

lemmas triplet_eval =
  segment_2 version_triplet_def component_def dec_def digit_val_def is_digit_def
  maxUint64_def triple_gt_def

lemma isNewer_example_1: "isNewer ''1.2.0'' ''1.1.9''"
  by (simp add: isNewer_triple triplet_eval)

lemma isNewer_example_2: "\<not> isNewer ''1.2.0-rc1'' ''1.2.0''"
  by (simp add: isNewer_triple triplet_eval)

lemma isNewer_example_3: "\<not> isNewer ''1.0'' ''1.0.0''"
  by (simp add: isNewer_triple triplet_eval)

text \<open>
  C3, as stated, fails on the code: with the segments read as the specification words
  it (a digit run is its decimal value), \<open>99999999999999999999\<close> is newer than
  \<open>9223372036854775807\<close>; \<open>isNewer\<close> says it is not, because \<open>Atoi\<close> returns
  \<open>2^63 - 1\<close> for both.
\<close>

theorem isNewer_range_counterexample:
  "spec_isNewer ''99999999999999999999'' ''9223372036854775807'' \<and>
   \<not> isNewer ''99999999999999999999'' ''9223372036854775807''"
  by (simp add: isNewer_triple triplet_eval spec_isNewer_def spec_triplet_def
      spec_component_def)

text \<open>
  C3 (amended): for every pair of strings \<open>a\<close> and \<open>b\<close>, \<open>isNewer a b\<close> strips what
  follows the first \<open>-\<close>, splits the rest on \<open>.\<close> and reads the first three segments
  as \<open>component\<close> does: a missing segment is 0; a run of decimal digits, with an optional
  leading \<open>+\<close>, is its decimal value clamped to \<open>2^63 - 1\<close>; a segment whose leading
  digit run exceeds \<open>2^64 - 1\<close> is \<open>2^63 - 1\<close>; any other segment is 0. It returns true
  iff the triplet of \<open>a\<close> is strictly greater than that of \<open>b\<close> lexicographically. It is
  total, and the three examples of the specification hold.
\<close>

theorem isNewer_triplet_order:
  "isNewer a b = triple_gt (version_triplet a) (version_triplet b) \<and>
   isNewer ''1.2.0'' ''1.1.9'' \<and>
   \<not> isNewer ''1.2.0-rc1'' ''1.2.0'' \<and>
   \<not> isNewer ''1.0'' ''1.0.0''"
  using isNewer_triple isNewer_example_1 isNewer_example_2 isNewer_example_3 by simp

section \<open>Release Store: properties\<close>

subsection \<open>The handlers on concrete requests\<close>

lemmas path_eval = filepath_Join_def filepath_Clean_def clean_step_def artDir_def
lemmas trim_eval = TrimSpace_def space_seqs_def
lemmas fixture_eval = env_ok_def publish_1_0_0_def init_server_def empty_store_def
  release_1_0_0_def toy_hash_def
lemmas store_eval = saveStore_def loadStore_def put_release_def persisted_def

lemma publish_1_0_0_standalone:
  "handlePublish H env_ok publish_1_0_0 init_server =
     (\<lparr>store = \<lparr>ReleasesByVersion = [''1.0.0'' \<mapsto> release_1_0_0 (H ''algo-bytes'')],
                 LatestByChannel = [''stable'' \<mapsto> ''1.0.0'']\<rparr>,
       snapshot = Some \<lparr>ReleasesByVersion = [''1.0.0'' \<mapsto> (release_1_0_0 (H ''algo-bytes''))\<lparr>FilePath := []\<rparr>],
                 LatestByChannel = [''stable'' \<mapsto> ''1.0.0'']\<rparr>,
       dirs = {''../../artifacts/1.0.0''},
       files = [''../../artifacts/1.0.0/algorithm'' \<mapsto> ''algo-bytes'']\<rparr>,
      [Reply 200 (ReleaseJson (release_1_0_0 (H ''algo-bytes'')))])"
  by (simp add: handlePublish_def fixture_eval store_eval path_eval trim_eval Let_def fun_eq_iff)

lemma publish_1_0_0_controller:
  "Publish H env_ok publish_1_0_0 init_server =
     (\<lparr>store = \<lparr>ReleasesByVersion = [''1.0.0'' \<mapsto> release_1_0_0 (H ''algo-bytes'')],
                 LatestByChannel = [''stable'' \<mapsto> ''1.0.0'']\<rparr>,
       snapshot = Some \<lparr>ReleasesByVersion = [''1.0.0'' \<mapsto> (release_1_0_0 (H ''algo-bytes''))\<lparr>FilePath := []\<rparr>],
                 LatestByChannel = [''stable'' \<mapsto> ''1.0.0'']\<rparr>,
       dirs = {''../../artifacts/1.0.0''},
       files = [''../../artifacts/1.0.0/algorithm'' \<mapsto> ''algo-bytes'']\<rparr>,
      [Reply 200 (ReleaseJson (release_1_0_0 (H ''algo-bytes'')))])"
  by (simp add: Publish_def fixture_eval store_eval path_eval trim_eval Let_def fun_eq_iff)

subsection \<open>The store invariant\<close>

lemma store_inv_put:
  "store_inv (store s) \<Longrightarrow> store_inv (store (put_release v c rel s))"
  by (auto simp: store_inv_def put_release_def ran_def)

lemma store_inv_persisted: "store_inv st \<Longrightarrow> store_inv (persisted st)"
  by (auto simp: store_inv_def persisted_def ran_def dom_def)

lemma server_inv_put:
  "server_inv s \<Longrightarrow> server_inv (put_release v c rel s)"
  using store_inv_put [of s v c rel]
  by (simp add: server_inv_def) (simp add: put_release_def)

lemma server_inv_dirs: "server_inv (s\<lparr>dirs := d\<rparr>) = server_inv s"
  by (simp add: server_inv_def)

lemma server_inv_files: "server_inv (s\<lparr>files := f\<rparr>) = server_inv s"
  by (simp add: server_inv_def)

lemma server_inv_saveStore: "server_inv s \<Longrightarrow> server_inv (snd (saveStore e s))"
  by (auto simp: saveStore_def server_inv_def store_inv_persisted)

lemma server_inv_loadStore: "server_inv s \<Longrightarrow> server_inv (snd (loadStore s))"
  by (auto simp: loadStore_def server_inv_def store_inv_def split: option.splits)

lemma saveStore_cases:
  "saveStore e s = (b, s') \<Longrightarrow> s' = snd (saveStore e s)"
  by simp

lemma handlePublish_inv: "server_inv s \<Longrightarrow> server_inv (fst (handlePublish H e r s))"
  by (auto simp: handlePublish_def Let_def server_inv_dirs server_inv_files
      intro!: server_inv_put
      dest!: saveStore_cases intro: server_inv_saveStore
      split: option.splits prod.splits bool.splits)

lemma Publish_inv: "server_inv s \<Longrightarrow> server_inv (fst (Publish H e r s))"
  by (auto simp: Publish_def Let_def server_inv_dirs server_inv_files
      intro!: server_inv_put
      dest!: saveStore_cases intro: server_inv_saveStore
      split: option.splits prod.splits bool.splits)

lemma server_inv_frame:
  "server_inv s \<Longrightarrow> store s' = store s \<Longrightarrow> snapshot s' = snapshot s \<Longrightarrow> server_inv s'"
  by (simp add: server_inv_def)

lemma server_inv_saved:
  "server_inv s \<Longrightarrow> server_inv (s\<lparr>snapshot := Some (persisted (store s))\<rparr>)"
  by (simp add: server_inv_def store_inv_persisted)

lemma Publish_v1_inv:
  assumes "server_inv s"
  shows "server_inv (fst (Publish_v1 H e r s))"
  using assms
  by (cases "mkdir_fails e"; cases "create_fails e"; cases "open_dst_fails e";
      cases "form_file r"; cases "open_src_fails e"; cases "copy_err e"; cases "save_fails e";
      simp add: Publish_v1_def Let_def saveStore_def server_inv_dirs server_inv_files
        server_inv_put server_inv_saved)

lemma handleCheck_state: "fst (handleCheck r s) = s"
  by (simp add: handleCheck_def Let_def split: option.splits)

lemma handleDownload_state: "fst (handleDownload path s) = s"
  by (simp add: handleDownload_def Let_def split: option.splits)

lemma Check_state: "fst (Check r s) = snd (loadStore s)"
  by (simp add: Check_def Let_def split: option.splits)

lemma standalone_step_inv: "server_inv s \<Longrightarrow> server_inv (standalone_step H s op)"
  by (cases op) (simp_all add: handlePublish_inv handleCheck_state handleDownload_state)

lemma controller_step_inv: "server_inv s \<Longrightarrow> server_inv (controller_step H s op)"
  by (cases op) (simp_all add: Publish_inv Publish_v1_inv Check_state server_inv_loadStore)

lemma standalone_run_inv: "server_inv s \<Longrightarrow> server_inv (standalone_run H ops s)"
  unfolding standalone_run_def
  by (induction ops arbitrary: s) (simp_all add: standalone_step_inv)

lemma controller_run_inv: "server_inv s \<Longrightarrow> server_inv (controller_run H ops s)"
  unfolding controller_run_def
  by (induction ops arbitrary: s) (simp_all add: controller_step_inv)

lemma init_server_inv: "server_inv init_server"
  by (simp add: server_inv_def store_inv_def init_server_def empty_store_def)

text \<open>
  C7: every value of \<open>LatestByChannel\<close> is a key of \<open>ReleasesByVersion\<close> after any
  sequence of publish, check and download operations on the standalone server, and
  after any sequence of publish (either revision) and check operations on the
  controller, starting from the empty store with no snapshot file. Every operation
  preserves the invariant (\<open>standalone_step_inv\<close>, \<open>controller_step_inv\<close>).
\<close>

theorem latest_has_release:
  "store_inv (store (standalone_run H ops init_server)) \<and>
   store_inv (store (controller_run H cops init_server))"
  using standalone_run_inv [OF init_server_inv, of H ops]
    controller_run_inv [OF init_server_inv, of H cops]
  by (simp add: server_inv_def)

subsection \<open>check\<close>





lemma loadStore_effect:
  "snapshot (snd (loadStore s)) = snapshot s \<and> dirs (snd (loadStore s)) = dirs s \<and>
   files (snd (loadStore s)) = files s \<and>
   store (snd (loadStore s)) = (case snapshot s of None \<Rightarrow> store s | Some sn \<Rightarrow> sn)"
  by (simp add: loadStore_def split: option.splits)

lemma beta_unsaved:
  "fst (Publish H (env_ok\<lparr>save_fails := True\<rparr>) (publish_1_0_0\<lparr>form_channel := ''beta''\<rparr>)
         (init_server\<lparr>snapshot := Some empty_store\<rparr>)) =
     \<lparr>store = \<lparr>ReleasesByVersion = [''1.0.0'' \<mapsto> (release_1_0_0 (H ''algo-bytes''))\<lparr>Channel := ''beta''\<rparr>],
                LatestByChannel = [''beta'' \<mapsto> ''1.0.0'']\<rparr>,
      snapshot = Some empty_store,
      dirs = {''../../artifacts/1.0.0''},
      files = [''../../artifacts/1.0.0/algorithm'' \<mapsto> ''algo-bytes'']\<rparr>"
  by (simp add: Publish_def fixture_eval store_eval path_eval trim_eval Let_def fun_eq_iff)

text \<open>
  C5, as stated, fails on the controller: with no release in the channel \<open>Check\<close>
  answers with its internal error class (HTTP 500), not a not-found class, and the
  reload it begins with replaces the in-memory store by the snapshot. Here a release was
  published on \<open>beta\<close> while the snapshot could not be written; a check on \<open>stable\<close>
  then fails with 500 and the \<open>beta\<close> entry is gone from the store.
\<close>

theorem check_not_found_counterexample:
  "LatestByChannel (store (fst (Publish toy_hash (env_ok\<lparr>save_fails := True\<rparr>)
       (publish_1_0_0\<lparr>form_channel := ''beta''\<rparr>) (init_server\<lparr>snapshot := Some empty_store\<rparr>)))) ''stable''
     = None \<and>
   LatestByChannel (store (fst (Publish toy_hash (env_ok\<lparr>save_fails := True\<rparr>)
       (publish_1_0_0\<lparr>form_channel := ''beta''\<rparr>) (init_server\<lparr>snapshot := Some empty_store\<rparr>)))) ''beta''
     = Some ''1.0.0'' \<and>
   snd (Check \<lparr>q_channel = Some ''stable'', q_current = None\<rparr>
     (fst (Publish toy_hash (env_ok\<lparr>save_fails := True\<rparr>)
       (publish_1_0_0\<lparr>form_channel := ''beta''\<rparr>) (init_server\<lparr>snapshot := Some empty_store\<rparr>))))
     = [Reply 500 (FailureJson 500 ''Internal Server Error'' ''no release in channel'')] \<and>
   LatestByChannel (store (fst (Check \<lparr>q_channel = Some ''stable'', q_current = None\<rparr>
     (fst (Publish toy_hash (env_ok\<lparr>save_fails := True\<rparr>)
       (publish_1_0_0\<lparr>form_channel := ''beta''\<rparr>) (init_server\<lparr>snapshot := Some empty_store\<rparr>)))))) ''beta''
     = None"
  unfolding beta_unsaved
  by (simp add: Check_def loadStore_def DefaultQuery_def Get_def empty_store_def
      ResponseFailure_def Let_def)

text \<open>
  C5 (amended): for every check call where \<open>LatestByChannel\<close> has no entry for the
  channel, check fails and writes nothing else: the standalone \<open>handleCheck\<close> with 404
  (not found), leaving the server state unchanged; the controller's \<open>Check\<close>, where the
  entry is looked up after the reload from the snapshot file, with 500 (its error codes
  have no not-found class), the state being the reloaded one: the store is the snapshot's
  when the file loads and unchanged otherwise; snapshot, directories and files are
  unchanged.
\<close>

theorem check_without_release:
  "(LatestByChannel (store s) (if Get (q_channel r) = [] then ''stable'' else Get (q_channel r)) = None
    \<longrightarrow> handleCheck r s = (s, [Reply 404 (Text ''no release in channel'')]))
   \<and>
   (LatestByChannel (store (snd (loadStore s))) (DefaultQuery (q_channel r) ''stable'') = None
    \<longrightarrow> Check r s =
      (snd (loadStore s), [Reply 500 (FailureJson 500 ''Internal Server Error'' ''no release in channel'')]))
   \<and> snapshot (snd (loadStore s)) = snapshot s \<and> dirs (snd (loadStore s)) = dirs s
   \<and> files (snd (loadStore s)) = files s
   \<and> store (snd (loadStore s)) = (case snapshot s of None \<Rightarrow> store s | Some sn \<Rightarrow> sn)"
  using loadStore_effect [of s]
  by (simp add: handleCheck_def Check_def Let_def ResponseFailure_def)

theorem check_without_release_witness:
  "LatestByChannel (store init_server) ''stable'' = None \<and>
   handleCheck \<lparr>q_channel = None, q_current = Some ''1.0.0''\<rparr> init_server
     = (init_server, [Reply 404 (Text ''no release in channel'')]) \<and>
   Check \<lparr>q_channel = None, q_current = Some ''1.0.0''\<rparr> init_server
     = (init_server, [Reply 500 (FailureJson 500 ''Internal Server Error'' ''no release in channel'')])"
  using check_without_release [of init_server "\<lparr>q_channel = None, q_current = Some ''1.0.0''\<rparr>"]
  by (simp add: init_server_def empty_store_def Get_def DefaultQuery_def loadStore_def)

subsection \<open>publish\<close>

lemma handlePublish_save_fails:
  assumes "req_method r = ''POST''" "multipart_ok r" "TrimSpace (form_version r) \<noteq> []"
    "form_file r = Some content" "\<not> mkdir_fails e" "\<not> create_fails e" "copy_err e = None"
    "save_fails e"
  shows "snd (handlePublish H e r s) = [Reply 500 (Text ''save metadata: '')] \<and>
    (\<exists>rel. ReleasesByVersion (store (fst (handlePublish H e r s))) (TrimSpace (form_version r)) = Some rel
        \<and> Version rel = TrimSpace (form_version r) \<and> Sha256 rel = H content)
    \<and> LatestByChannel (store (fst (handlePublish H e r s)))
         (if form_channel r = [] then ''stable'' else form_channel r) = Some (TrimSpace (form_version r))
    \<and> snapshot (fst (handlePublish H e r s)) = snapshot s"
  using assms by (simp add: handlePublish_def Let_def saveStore_def put_release_def)

lemma Publish_save_fails:
  assumes "TrimSpace (form_version r) \<noteq> []"
    "form_file r = Some content" "\<not> mkdir_fails e" "\<not> create_fails e" "\<not> open_src_fails e"
    "copy_err e = None" "save_fails e"
  shows "snd (Publish H e r s) = [Reply 500 (FailureJson 500 ''Internal Server Error'' ''save metadata: '')] \<and>
    (\<exists>rel. ReleasesByVersion (store (fst (Publish H e r s))) (TrimSpace (form_version r)) = Some rel
        \<and> Version rel = TrimSpace (form_version r) \<and> Sha256 rel = H content)
    \<and> LatestByChannel (store (fst (Publish H e r s)))
         (if TrimSpace (form_channel r) = [] then ''stable'' else TrimSpace (form_channel r))
         = Some (TrimSpace (form_version r))
    \<and> snapshot (fst (Publish H e r s)) = snapshot s"
  using assms by (simp add: Publish_def Let_def saveStore_def put_release_def ResponseFailure_def)

text \<open>
  C9: when the artifact is written and the snapshot cannot be persisted, publish
  answers with status 500 (\<open>save metadata\<close>) and the in-memory mutation stays: the
  store holds the new release under the version, with the digest of the content, and
  the channel's latest version is the version; the snapshot file is as before. This
  holds of \<open>handlePublish\<close> and of the controller's \<open>Publish\<close>.
\<close>

theorem publish_persistence_failure:
  "(req_method r = ''POST'' \<and> multipart_ok r \<and> TrimSpace (form_version r) \<noteq> [] \<and>
    form_file r = Some content \<and> \<not> mkdir_fails e \<and> \<not> create_fails e \<and> copy_err e = None \<and>
    save_fails e
    \<longrightarrow> snd (handlePublish H e r s) = [Reply 500 (Text ''save metadata: '')] \<and>
      (\<exists>rel. ReleasesByVersion (store (fst (handlePublish H e r s))) (TrimSpace (form_version r)) = Some rel
          \<and> Version rel = TrimSpace (form_version r) \<and> Sha256 rel = H content)
      \<and> LatestByChannel (store (fst (handlePublish H e r s)))
           (if form_channel r = [] then ''stable'' else form_channel r) = Some (TrimSpace (form_version r))
      \<and> snapshot (fst (handlePublish H e r s)) = snapshot s)
   \<and>
   (TrimSpace (form_version r) \<noteq> [] \<and> form_file r = Some content \<and> \<not> mkdir_fails e \<and>
    \<not> create_fails e \<and> \<not> open_src_fails e \<and> copy_err e = None \<and> save_fails e
    \<longrightarrow> snd (Publish H e r s)
        = [Reply 500 (FailureJson 500 ''Internal Server Error'' ''save metadata: '')] \<and>
      (\<exists>rel. ReleasesByVersion (store (fst (Publish H e r s))) (TrimSpace (form_version r)) = Some rel
          \<and> Version rel = TrimSpace (form_version r) \<and> Sha256 rel = H content)
      \<and> LatestByChannel (store (fst (Publish H e r s)))
           (if TrimSpace (form_channel r) = [] then ''stable'' else TrimSpace (form_channel r))
           = Some (TrimSpace (form_version r))
      \<and> snapshot (fst (Publish H e r s)) = snapshot s)"
  (is "(?A1 \<longrightarrow> ?C1) \<and> (?A2 \<longrightarrow> ?C2)")
proof (rule conjI)
  show "?A1 \<longrightarrow> ?C1"
    using handlePublish_save_fails [of r content e H s] by blast
  show "?A2 \<longrightarrow> ?C2"
    using Publish_save_fails [of r content e H s] by blast
qed

theorem publish_persistence_failure_witness:
  "save_fails (env_ok\<lparr>save_fails := True\<rparr>) \<and>
   snd (handlePublish toy_hash (env_ok\<lparr>save_fails := True\<rparr>) publish_1_0_0 init_server)
     = [Reply 500 (Text ''save metadata: '')] \<and>
   ReleasesByVersion (store (fst (handlePublish toy_hash (env_ok\<lparr>save_fails := True\<rparr>)
       publish_1_0_0 init_server))) ''1.0.0'' = Some (release_1_0_0 ''h:algo-bytes'') \<and>
   LatestByChannel (store (fst (handlePublish toy_hash (env_ok\<lparr>save_fails := True\<rparr>)
       publish_1_0_0 init_server))) ''stable'' = Some ''1.0.0'' \<and>
   snapshot (fst (handlePublish toy_hash (env_ok\<lparr>save_fails := True\<rparr>) publish_1_0_0 init_server))
     = None \<and>
   snd (Publish toy_hash (env_ok\<lparr>save_fails := True\<rparr>) publish_1_0_0 init_server)
     = [Reply 500 (FailureJson 500 ''Internal Server Error'' ''save metadata: '')] \<and>
   LatestByChannel (store (fst (Publish toy_hash (env_ok\<lparr>save_fails := True\<rparr>)
       publish_1_0_0 init_server))) ''stable'' = Some ''1.0.0''"
  using publish_persistence_failure [of publish_1_0_0 "''algo-bytes''" "env_ok\<lparr>save_fails := True\<rparr>"
      toy_hash init_server]
  by (simp add: handlePublish_def Publish_def fixture_eval store_eval path_eval trim_eval Let_def
      ResponseFailure_def)

text \<open>
  C1, on the earlier revision of the controller's \<open>Publish\<close>: the upload
  \<open>algo-bytes\<close> is published successfully, the digest of the release returned and
  stored is the hash of the empty string, and the artifact file is empty.
\<close>

theorem Publish_v1_digest_of_reopened_file:
  "form_file publish_1_0_0 = Some ''algo-bytes'' \<and>
   snd (Publish_v1 H env_ok publish_1_0_0 init_server) = [Reply 200 (ReleaseJson (release_1_0_0 (H [])))] \<and>
   ReleasesByVersion (store (fst (Publish_v1 H env_ok publish_1_0_0 init_server))) ''1.0.0''
     = Some (release_1_0_0 (H [])) \<and>
   files (fst (Publish_v1 H env_ok publish_1_0_0 init_server)) ''../../artifacts/1.0.0/algorithm'' = Some []"
  by (simp add: Publish_v1_def fixture_eval store_eval path_eval trim_eval Let_def)

text \<open>
  C8, on the earlier revision of the controller's \<open>Publish\<close>: a blank version is
  answered with 400 and then published all the same (artifact directory and file
  created, both maps updated under the empty version); a missing file is answered with
  400, after which the directory and an empty artifact file are created and the handler
  panics.
\<close>

theorem Publish_v1_validation_continues:
  "snd (Publish_v1 H env_ok (publish_1_0_0\<lparr>form_version := ''  ''\<rparr>) init_server)
     = [Reply 400 (FailureJson 400 ''Bad Request'' ''version is required''),
        Reply 200 (ReleaseJson ((release_1_0_0 (H []))
          \<lparr>Version := [], URL := ''/download/'', FilePath := ''../../artifacts/algorithm''\<rparr>))] \<and>
   LatestByChannel (store (fst (Publish_v1 H env_ok (publish_1_0_0\<lparr>form_version := ''  ''\<rparr>) init_server)))
     ''stable'' = Some [] \<and>
   dirs (fst (Publish_v1 H env_ok (publish_1_0_0\<lparr>form_version := ''  ''\<rparr>) init_server))
     = {''../../artifacts''} \<and>
   files (fst (Publish_v1 H env_ok (publish_1_0_0\<lparr>form_version := ''  ''\<rparr>) init_server))
     ''../../artifacts/algorithm'' = Some [] \<and>
   snd (Publish_v1 H env_ok (publish_1_0_0\<lparr>form_file := None\<rparr>) init_server)
     = [Reply 400 (FailureJson 400 ''Bad Request'' ''missing file: ''), Panicked] \<and>
   dirs (fst (Publish_v1 H env_ok (publish_1_0_0\<lparr>form_file := None\<rparr>) init_server))
     = {''../../artifacts/1.0.0''} \<and>
   files (fst (Publish_v1 H env_ok (publish_1_0_0\<lparr>form_file := None\<rparr>) init_server))
     ''../../artifacts/1.0.0/algorithm'' = Some []"
  by (simp add: Publish_v1_def fixture_eval store_eval path_eval trim_eval Let_def ResponseFailure_def)

subsection \<open>publish in the standalone server and in the later revision of the controller\<close>

lemma handlePublish_success:
  "status_of (snd (handlePublish H e r s)) = Some 200 \<Longrightarrow>
   (\<exists>content rel. form_file r = Some content \<and>
      snd (handlePublish H e r s) = [Reply 200 (ReleaseJson rel)] \<and>
      Sha256 rel = H content \<and> Version rel = TrimSpace (form_version r) \<and>
      ReleasesByVersion (store (fst (handlePublish H e r s))) (TrimSpace (form_version r)) = Some rel \<and>
      files (fst (handlePublish H e r s)) (FilePath rel) = Some content)"
  by (cases "req_method r = ''POST''"; cases "multipart_ok r"; cases "TrimSpace (form_version r) = []";
      cases "form_file r"; cases "mkdir_fails e"; cases "create_fails e"; cases "copy_err e";
      cases "save_fails e";
      simp add: handlePublish_def Let_def status_of_def saveStore_def put_release_def)

lemma Publish_success:
  "status_of (snd (Publish H e r s)) = Some 200 \<Longrightarrow>
   (\<exists>content rel. form_file r = Some content \<and>
      snd (Publish H e r s) = [Reply 200 (ReleaseJson rel)] \<and>
      Sha256 rel = H content \<and> Version rel = TrimSpace (form_version r) \<and>
      ReleasesByVersion (store (fst (Publish H e r s))) (TrimSpace (form_version r)) = Some rel \<and>
      files (fst (Publish H e r s)) (FilePath rel) = Some content)"
  by (cases "TrimSpace (form_version r) = []";
      cases "form_file r"; cases "mkdir_fails e"; cases "create_fails e"; cases "open_src_fails e";
      cases "copy_err e"; cases "save_fails e";
      simp add: Publish_def Let_def status_of_def saveStore_def put_release_def ResponseFailure_def)

lemma handlePublish_invalid:
  "req_method r = ''POST'' \<Longrightarrow> multipart_ok r \<Longrightarrow>
   TrimSpace (form_version r) = [] \<or> form_file r = None \<Longrightarrow>
   fst (handlePublish H e r s) = s \<and> status_of (snd (handlePublish H e r s)) = Some 400"
  by (cases "TrimSpace (form_version r) = []"; cases "form_file r";
      simp add: handlePublish_def Let_def status_of_def)

lemma Publish_invalid:
  "TrimSpace (form_version r) = [] \<or> form_file r = None \<Longrightarrow>
   fst (Publish H e r s) = s \<and> status_of (snd (Publish H e r s)) = Some 400"
  by (cases "TrimSpace (form_version r) = []"; cases "form_file r";
      simp add: Publish_def Let_def status_of_def ResponseFailure_def)

text \<open>
  X1 (C1 on the standalone \<open>handlePublish\<close> and the later revision of \<open>Publish\<close>): a
  publish call answered with status 200 had a file part; the release written to the
  response is the one stored under the trimmed version; its digest is the hash of the
  uploaded content, and the artifact file at its path holds that content.
\<close>

theorem publish_digest_of_content:
  "(status_of (snd (handlePublish H e r s)) = Some 200 \<longrightarrow>
     (\<exists>content rel. form_file r = Some content \<and>
        snd (handlePublish H e r s) = [Reply 200 (ReleaseJson rel)] \<and>
        Sha256 rel = H content \<and> Version rel = TrimSpace (form_version r) \<and>
        ReleasesByVersion (store (fst (handlePublish H e r s))) (TrimSpace (form_version r)) = Some rel \<and>
        files (fst (handlePublish H e r s)) (FilePath rel) = Some content))
   \<and>
   (status_of (snd (Publish H e r s)) = Some 200 \<longrightarrow>
     (\<exists>content rel. form_file r = Some content \<and>
        snd (Publish H e r s) = [Reply 200 (ReleaseJson rel)] \<and>
        Sha256 rel = H content \<and> Version rel = TrimSpace (form_version r) \<and>
        ReleasesByVersion (store (fst (Publish H e r s))) (TrimSpace (form_version r)) = Some rel \<and>
        files (fst (Publish H e r s)) (FilePath rel) = Some content))"
  using handlePublish_success [of H e r s] Publish_success [of H e r s] by blast

theorem publish_digest_of_content_witness:
  "status_of (snd (handlePublish toy_hash env_ok publish_1_0_0 init_server)) = Some 200 \<and>
   form_file publish_1_0_0 = Some ''algo-bytes'' \<and>
   snd (handlePublish toy_hash env_ok publish_1_0_0 init_server)
     = [Reply 200 (ReleaseJson (release_1_0_0 ''h:algo-bytes''))] \<and>
   status_of (snd (Publish toy_hash env_ok publish_1_0_0 init_server)) = Some 200 \<and>
   snd (Publish toy_hash env_ok publish_1_0_0 init_server)
     = [Reply 200 (ReleaseJson (release_1_0_0 ''h:algo-bytes''))]"
  using publish_digest_of_content [of toy_hash env_ok publish_1_0_0 init_server]
  unfolding publish_1_0_0_standalone publish_1_0_0_controller
  by (simp add: status_of_def toy_hash_def publish_1_0_0_def)

text \<open>
  X2 (C8 on the standalone \<open>handlePublish\<close> and the later revision of \<open>Publish\<close>): a
  publish call whose version is empty after trimming, or whose file part is absent, is
  answered with status 400 and leaves the server state (store, snapshot, directories,
  files) unchanged. For the standalone handler the call is a POST whose form parsed.
\<close>

theorem publish_validation_rejects:
  "(req_method r = ''POST'' \<and> multipart_ok r \<and>
    (TrimSpace (form_version r) = [] \<or> form_file r = None)
    \<longrightarrow> fst (handlePublish H e r s) = s \<and> status_of (snd (handlePublish H e r s)) = Some 400)
   \<and>
   (TrimSpace (form_version r) = [] \<or> form_file r = None
    \<longrightarrow> fst (Publish H e r s) = s \<and> status_of (snd (Publish H e r s)) = Some 400)"
  using handlePublish_invalid [of r H e s] Publish_invalid [of r H e s] by blast

theorem publish_validation_rejects_witness:
  "TrimSpace (form_version (publish_1_0_0\<lparr>form_version := ''  ''\<rparr>)) = [] \<and>
   handlePublish toy_hash env_ok (publish_1_0_0\<lparr>form_version := ''  ''\<rparr>) init_server
     = (init_server, [Reply 400 (Text ''missing version'')]) \<and>
   Publish toy_hash env_ok (publish_1_0_0\<lparr>form_file := None\<rparr>) init_server
     = (init_server, [Reply 400 (FailureJson 400 ''Bad Request'' ''missing file: '')])"
  using
    publish_validation_rejects [of "publish_1_0_0\<lparr>form_version := ''  ''\<rparr>" toy_hash env_ok init_server]
    publish_validation_rejects [of "publish_1_0_0\<lparr>form_file := None\<rparr>" toy_hash env_ok init_server]
  by (simp add: handlePublish_def Publish_def publish_1_0_0_def trim_eval Let_def ResponseFailure_def)

subsection \<open>download\<close>

lemma TrimPrefix_append: "TrimPrefix (p @ x) p = x"
  by (simp add: TrimPrefix_def)

lemma first_segment:
  assumes "CHR ''/'' \<notin> set v"
  shows "Split v (CHR ''/'') ! 0 = v" and "Split (v @ ''/'' @ rest) (CHR ''/'') ! 0 = v"
proof -
  show "Split v (CHR ''/'') ! 0 = v"
    using assms by (simp add: Split_first takeWhile_no_sep)
  have "takeWhile (\<lambda>c. c \<noteq> CHR ''/'') (v @ ''/'' @ rest) = v"
    using assms by (induction v) auto
  then show "Split (v @ ''/'' @ rest) (CHR ''/'') ! 0 = v"
    by (simp only: Split_first)
qed

lemma handleDownload_version:
  assumes "CHR ''/'' \<notin> set v"
    and "path = ''/download/'' @ v \<or> path = ''/download/'' @ v @ ''/'' @ rest"
  shows "handleDownload path s =
      (s, if v = [] then [Reply 400 (Text ''version required'')]
          else (case ReleasesByVersion (store s) v of
                  None \<Rightarrow> [Reply 404 (Text ''unknown version'')]
                | Some rel \<Rightarrow> ServeFile s path (FilePath rel)))"
proof -
  have tp: "Split (TrimPrefix path ''/download/'') (CHR ''/'') ! 0 = v"
    using assms(2) first_segment [OF assms(1)] TrimPrefix_append [of "''/download/''"]
    by auto
  show ?thesis
    unfolding handleDownload_def
    by (simp only: Let_def Split_not_Nil tp simp_thms if_False split: option.splits) simp
qed

lemma ServeFile_cases:
  "ServeFile s path name =
     (if containsDotDot path then [Reply 400 (Text ''invalid URL path'')]
      else if HasSuffix path ''/index.html'' then [Redirect ''./'']
      else (case os_Stat s (ServeFile_opens name) of
              Regular b \<Rightarrow> [ServeContent b]
            | Directory \<Rightarrow> [ServeDirectory (ServeFile_opens name)]
            | Missing \<Rightarrow> [Reply 404 (Text ''404 page not found'')]))"
  by (simp add: ServeFile_def serveFile_def ServeFile_opens_def Let_def
      split: prod.splits fs_entry.splits)

lemmas download_eval = ServeFile_opens_def Dir_Open_def filepath_Split_def HasSuffix_def
  containsDotDot_def FieldsFunc_def isSlashRune_def os_Stat_def is_directory_def
  filepath_Join_def filepath_Clean_def clean_step_def




text \<open>
  The recorded path is what is served, not the release: \<open>FilePath\<close> is not part of the
  snapshot, so that after a start of the server on the snapshot the release 1.0.0 is
  known and its recorded path is empty; \<open>ServeFile\<close> opens the working directory.
\<close>

lemma download_after_restart:
  "snd (handleDownload ''/download/1.0.0''
          (main_start (fst (handlePublish toy_hash env_ok publish_1_0_0 init_server))))
     = [ServeDirectory ''.'']"
  unfolding publish_1_0_0_standalone
  by (simp add: handleDownload_def ServeFile_def serveFile_def TrimPrefix_def release_1_0_0_def
      main_start_def download_eval Let_def)

subsection \<open>publish, then download\<close>

lemma artifact_path_plain:
  assumes "plain_element v"
  shows "filepath_Join [filepath_Join [artDir, v], ''algorithm''] = ''../../artifacts/'' @ v @ ''/algorithm''"
proof -
  from assms have ns: "CHR ''/'' \<notin> set v" and ne: "v \<noteq> []" by (simp_all add: plain_element_def)
  have 1: "filepath_Join [artDir, v] = ''../../artifacts/'' @ v"
    by (simp add: Join_plain [OF assms] join_dir_def artDir_def clean_step_def)
  have 2: "join_dir (''../../artifacts/'' @ v) = ''../../artifacts/'' @ v @ ''/''"
    using assms by (simp add: join_dir_def Split_no_sep [OF ns] clean_step_def plain_element_def)
  have 3: "filepath_Join [''../../artifacts/'' @ v, ''algorithm'']
      = join_dir (''../../artifacts/'' @ v) @ ''algorithm''"
    by (rule Join_plain) (simp add: plain_element_def)
  show ?thesis
    unfolding 1 3 2 by simp
qed

lemma ServeFile_opens_artifact:
  assumes "plain_element v"
  shows "ServeFile_opens (''../../artifacts/'' @ v @ ''/algorithm'') = ''../../artifacts/'' @ v @ ''/algorithm''"
proof -
  from assms have ns: "CHR ''/'' \<notin> set v" and ne: "v \<noteq> []" by (simp_all add: plain_element_def)
  have tw: "takeWhile (\<lambda>c. c \<noteq> CHR ''/'') (rev (''../../artifacts/'' @ v @ ''/algorithm'')) = ''mhtirogla''"
    by simp
  have sp: "filepath_Split (''../../artifacts/'' @ v @ ''/algorithm'')
      = (''../../artifacts/'' @ v @ ''/'', ''algorithm'')"
    unfolding filepath_Split_def tw by (simp add: Let_def)
  have j: "join_dir (''../../artifacts/'' @ v @ ''/'') = ''../../artifacts/'' @ v @ ''/''"
    using assms
    by (simp add: join_dir_def Split_append_sep Split_no_sep [OF ns] clean_step_def plain_element_def)
  have c: "tl (filepath_Clean ''/algorithm'') = ''algorithm''"
    by (simp add: filepath_Clean_def clean_step_def)
  have 3: "filepath_Join [''../../artifacts/'' @ v @ ''/'', ''algorithm'']
      = join_dir (''../../artifacts/'' @ v @ ''/'') @ ''algorithm''"
    by (rule Join_plain) (simp add: plain_element_def)
  have d: "Dir_Open (''../../artifacts/'' @ v @ ''/'') ''algorithm'' = ''../../artifacts/'' @ v @ ''/algorithm''"
    using 3 j by (simp add: Dir_Open_def Let_def c)
  show ?thesis
    unfolding ServeFile_opens_def sp using d by simp
qed

lemma handlePublish_stored:
  "status_of (snd (handlePublish H e r s)) = Some 200 \<Longrightarrow>
   (\<exists>content rel. form_file r = Some content \<and>
      ReleasesByVersion (store (fst (handlePublish H e r s))) (TrimSpace (form_version r)) = Some rel \<and>
      FilePath rel = filepath_Join [filepath_Join [artDir, TrimSpace (form_version r)], ''algorithm''] \<and>
      files (fst (handlePublish H e r s)) (FilePath rel) = Some content)"
  by (cases "req_method r = ''POST''"; cases "multipart_ok r"; cases "TrimSpace (form_version r) = []";
      cases "form_file r"; cases "mkdir_fails e"; cases "create_fails e"; cases "copy_err e";
      cases "save_fails e";
      simp add: handlePublish_def Let_def status_of_def saveStore_def put_release_def)

text \<open>
  X5 (C10 on the bytes served): right after a publish call that the standalone server
  answered with 200, for a version that is one path element (not empty, not \<open>.\<close> or
  \<open>..\<close>, without \<open>/\<close>), a download request for \<open>/download/v\<close> or \<open>/download/v/rest\<close>
  whose path has no \<open>..\<close> element and does not end in \<open>/index.html\<close> is answered with
  the content that was uploaded, and leaves the server state as it is.
\<close>

theorem published_artifact_downloaded:
  "status_of (snd (handlePublish H e r s)) = Some 200 \<and>
   plain_element (TrimSpace (form_version r)) \<and>
   (path = ''/download/'' @ TrimSpace (form_version r) \<or>
    path = ''/download/'' @ TrimSpace (form_version r) @ ''/'' @ rest) \<and>
   \<not> containsDotDot path \<and> \<not> HasSuffix path ''/index.html''
   \<longrightarrow>
   (\<exists>content. form_file r = Some content \<and>
      handleDownload path (fst (handlePublish H e r s))
        = (fst (handlePublish H e r s), [ServeContent content]))"
proof (intro impI, elim conjE)
  let ?v = "TrimSpace (form_version r)"
  let ?s = "fst (handlePublish H e r s)"
  assume ok: "status_of (snd (handlePublish H e r s)) = Some 200"
    and pv: "plain_element ?v"
    and p: "path = ''/download/'' @ ?v \<or> path = ''/download/'' @ ?v @ ''/'' @ rest"
    and nd: "\<not> containsDotDot path" and ni: "\<not> HasSuffix path ''/index.html''"
  from handlePublish_stored [OF ok] obtain content rel where
    st: "form_file r = Some content" "ReleasesByVersion (store ?s) ?v = Some rel"
      "FilePath rel = filepath_Join [filepath_Join [artDir, ?v], ''algorithm'']"
      "files ?s (FilePath rel) = Some content"
    by blast
  from pv have ns: "CHR ''/'' \<notin> set ?v" and ne: "?v \<noteq> []" by (simp_all add: plain_element_def)
  have fp: "ServeFile_opens (FilePath rel) = FilePath rel"
    unfolding st(3) artifact_path_plain [OF pv] by (rule ServeFile_opens_artifact [OF pv])
  have stat: "os_Stat ?s (ServeFile_opens (FilePath rel)) = Regular content"
    unfolding fp using st(4) by (simp add: os_Stat_def)
  have "handleDownload path ?s = (?s, [ServeContent content])"
    unfolding handleDownload_version [OF ns p] ServeFile_cases
    using ne st(2) nd ni stat by simp
  with st(1) show "\<exists>content. form_file r = Some content \<and>
      handleDownload path ?s = (?s, [ServeContent content])" by blast
qed

theorem published_artifact_downloaded_witness:
  "status_of (snd (handlePublish toy_hash env_ok publish_1_0_0 init_server)) = Some 200 \<and>
   plain_element (TrimSpace (form_version publish_1_0_0)) \<and>
   \<not> containsDotDot ''/download/1.0.0/extra/x'' \<and>
   \<not> HasSuffix ''/download/1.0.0/extra/x'' ''/index.html'' \<and>
   form_file publish_1_0_0 = Some ''algo-bytes'' \<and>
   snd (handleDownload ''/download/1.0.0/extra/x''
          (fst (handlePublish toy_hash env_ok publish_1_0_0 init_server)))
     = [ServeContent ''algo-bytes'']"
  using published_artifact_downloaded [of toy_hash env_ok publish_1_0_0 init_server
      "''/download/1.0.0/extra/x''" "''extra/x''"]
  unfolding publish_1_0_0_standalone
  by (simp add: status_of_def publish_1_0_0_def trim_eval plain_element_def download_eval)

section \<open>Update client: properties\<close>

subsection \<open>Paths in the install directory\<close>

lemma plain_download: "CHR ''/'' \<notin> set v \<Longrightarrow> plain_element (''download_'' @ v)"
  by (simp add: plain_element_def)

lemma plain_algo: "CHR ''/'' \<notin> set v \<Longrightarrow> plain_element (''algo_'' @ v)"
  by (simp add: plain_element_def)

lemma plain_fixed: "plain_element ''current_version''" "plain_element ''algo_current''"
  by (simp_all add: plain_element_def)

lemma record_not_aliased:
  assumes "CHR ''/'' \<notin> set v"
  shows "filepath_Join [InstallDir cfg, ''download_'' @ v] \<noteq> currentVerFP cfg"
    and "filepath_Join [InstallDir cfg, ''algo_'' @ v] \<noteq> currentVerFP cfg"
    and "filepath_Join [InstallDir cfg, ''algo_current''] \<noteq> currentVerFP cfg"
proof -
  show "filepath_Join [InstallDir cfg, ''download_'' @ v] \<noteq> currentVerFP cfg"
    unfolding currentVerFP_def
    by (rule Join_plain_distinct [OF plain_download [OF assms] plain_fixed(1)]) simp
  show "filepath_Join [InstallDir cfg, ''algo_'' @ v] \<noteq> currentVerFP cfg"
    unfolding currentVerFP_def
    by (rule Join_plain_distinct [OF plain_algo [OF assms] plain_fixed(1)]) simp
  show "filepath_Join [InstallDir cfg, ''algo_current''] \<noteq> currentVerFP cfg"
    unfolding currentVerFP_def
    by (rule Join_plain_distinct [OF plain_fixed(2) plain_fixed(1)]) simp
qed


subsection \<open>What a cycle leaves untouched\<close>

lemma resolve_no_link:
  "(case f p of Some (Symlink target) \<Rightarrow> False | _ \<Rightarrow> True) \<Longrightarrow> resolve n f p = Some p"
  by (cases n) (auto split: option.splits node.splits)

lemma resolve_unfold:
  "resolve n f p =
     (case f p of
        Some (Symlink target) \<Rightarrow> if n = 0 then None else resolve (n - 1) f (link_target p target)
      | _ \<Rightarrow> Some p)"
  by (cases n) (simp_all split: option.splits node.splits)

lemma follow_links_no_link: "\<not> is_link c p \<Longrightarrow> follow_links c p = Some p"
  unfolding follow_links_def is_link_def
  by (rule resolve_no_link) (simp split: option.splits node.splits)

lemma is_link_same: "fs c' p = fs c p \<Longrightarrow> is_link c' p = is_link c p"
  by (simp add: is_link_def)

lemma put_file_other: "p \<noteq> q \<Longrightarrow> fs (put_file p b c) q = fs c q"
  by (simp add: put_file_def)

lemma put_file_no_link: "\<not> is_link (put_file p b c) p"
  by (simp add: put_file_def is_link_def)

lemma os_Remove_other: "p \<noteq> q \<Longrightarrow> fs (os_Remove p c) q = fs c q"
  by (simp add: os_Remove_def)

lemma os_Rename_other:
  "os_Rename f a b c = Some c' \<Longrightarrow> a \<noteq> q \<Longrightarrow> b \<noteq> q \<Longrightarrow> fs c' q = fs c q"
  by (auto simp: os_Rename_def split: if_splits option.splits)

lemma os_Rename_no_link:
  "os_Rename f a b c = Some c' \<Longrightarrow> \<not> is_link c a \<Longrightarrow> \<not> is_link c' b"
  by (auto simp: os_Rename_def is_link_def split: if_splits option.splits node.splits)

lemma os_Chmod_exec_other:
  "os_Chmod_exec f p c = Some c' \<Longrightarrow> \<not> is_link c p \<Longrightarrow> p \<noteq> q \<Longrightarrow> fs c' q = fs c q"
  by (auto simp: os_Chmod_exec_def follow_links_no_link split: if_splits option.splits node.splits)

lemma os_Symlink_other:
  "os_Symlink f target l c = Some c' \<Longrightarrow> l \<noteq> q \<Longrightarrow> fs c' q = fs c q"
  by (auto simp: os_Symlink_def split: if_splits option.splits)

lemma restartAlgorithm_fs: "restartAlgorithm e bin c = (r, c') \<Longrightarrow> fs c' = fs c"
  by (auto simp: restartAlgorithm_def stopAlgorithm_def startAlgorithm_def
      split: if_splits option.splits)

lemma downloadToFile_cases:
  assumes "downloadToFile e p c = (r, c')" and "\<not> is_link c p"
  shows "c' = c \<or> (\<exists>b. c' = put_file p b c)"
proof (cases "download_reply e")
  case DownloadGetErr
  with assms show ?thesis by (simp add: downloadToFile_def)
next
  case (DownloadHttp code b copy_fault)
  with assms show ?thesis
    by (cases "code = 200"; cases "tmp_create_fails e"; cases copy_fault)
      (auto simp: downloadToFile_def os_Create_def follow_links_no_link)
qed

lemma downloadToFile_other:
  "downloadToFile e p c = (r, c') \<Longrightarrow> \<not> is_link c p \<Longrightarrow> p \<noteq> q \<Longrightarrow> fs c' q = fs c q"
  using downloadToFile_cases [of e p c r c'] by (auto simp: put_file_other)

lemma downloadToFile_no_link:
  "downloadToFile e p c = (r, c') \<Longrightarrow> \<not> is_link c p \<Longrightarrow> \<not> is_link c' p"
  using downloadToFile_cases [of e p c r c'] by (auto simp: put_file_no_link)

lemma downloadToFile_sup:
  "downloadToFile e p c = (r, c') \<Longrightarrow> started c' = started c \<and> currentCmd c' = currentCmd c"
  by (auto simp: downloadToFile_def put_file_def split: download_answer.splits if_splits option.splits)

lemma os_Remove_sup: "started (os_Remove p c) = started c \<and> currentCmd (os_Remove p c) = currentCmd c"
  by (simp add: os_Remove_def)

lemma os_Rename_sup:
  "os_Rename f a b c = Some c' \<Longrightarrow> started c' = started c \<and> currentCmd c' = currentCmd c"
  by (auto simp: os_Rename_def split: if_splits option.splits)

lemma os_Chmod_exec_sup:
  "os_Chmod_exec f p c = Some c' \<Longrightarrow> started c' = started c \<and> currentCmd c' = currentCmd c"
  by (auto simp: os_Chmod_exec_def split: if_splits option.splits node.splits)

lemma os_Symlink_sup:
  "os_Symlink f target l c = Some c' \<Longrightarrow> started c' = started c \<and> currentCmd c' = currentCmd c"
  by (auto simp: os_Symlink_def split: if_splits option.splits)

lemma os_WriteFile_sup:
  "os_WriteFile w p b c = (r, c') \<Longrightarrow> started c' = started c \<and> currentCmd c' = currentCmd c"
  by (auto simp: os_WriteFile_def put_file_def split: write_fault.splits option.splits)

lemma restartAlgorithm_ok:
  "restartAlgorithm e bin c = (None, c') \<Longrightarrow> started c' = bin # started c \<and> currentCmd c' = Some bin"
  by (auto simp: restartAlgorithm_def stopAlgorithm_def startAlgorithm_def
      split: if_splits option.splits)

lemma readCurrentVersion_same:
  "fs c' (currentVerFP cfg) = fs c (currentVerFP cfg) \<Longrightarrow> \<not> is_link c (currentVerFP cfg) \<Longrightarrow>
   readCurrentVersion cfg c' = readCurrentVersion cfg c"
  using follow_links_no_link [of c "currentVerFP cfg"] follow_links_no_link [of c' "currentVerFP cfg"]
    is_link_same [of c' "currentVerFP cfg" c]
  by (simp add: readCurrentVersion_def)

lemma download_not_algo:
  assumes "CHR ''/'' \<notin> set v"
  shows "filepath_Join [d, ''download_'' @ v] \<noteq> filepath_Join [d, ''algo_'' @ v]"
  by (rule Join_plain_distinct [OF plain_download [OF assms] plain_algo [OF assms]]) simp

lemma record_untouched_before_write:
  assumes run: "runOnce H cfg current e c = (res, c')"
    and plain: "\<And>b ck l. check_reply e = CheckHttp 200 b (Some ck) \<Longrightarrow> Latest ck = Some l
        \<Longrightarrow> CHR ''/'' \<notin> set (rVersion l)"
    and nolink: "\<And>b ck l. check_reply e = CheckHttp 200 b (Some ck) \<Longrightarrow> Latest ck = Some l
        \<Longrightarrow> \<not> is_link c (filepath_Join [InstallDir cfg, ''download_'' @ rVersion l])"
    and res: "res \<noteq> None" "res \<noteq> Some WriteError"
  shows "fs c' (currentVerFP cfg) = fs c (currentVerFP cfg)"
proof (cases "check_reply e")
  case CheckGetErr
  with run show ?thesis by (simp add: runOnce_def)
next
  case (CheckHttp code b decoded)
  show ?thesis
  proof (cases "code = 200 \<and> (\<exists>ck l. decoded = Some ck \<and> UpdateAvailable ck \<and> Latest ck = Some l)")
    case False
    with run CheckHttp res show ?thesis
      by (auto simp: runOnce_def split: option.splits if_splits)
  next
    case True
    then obtain ck l where ok: "code = 200" "decoded = Some ck" "UpdateAvailable ck" "Latest ck = Some l"
      by blast
    from plain [of b ck l] CheckHttp ok have pv: "CHR ''/'' \<notin> set (rVersion l)" by simp
    let ?cur = "currentVerFP cfg"
    let ?tmp = "filepath_Join [InstallDir cfg, ''download_'' @ rVersion l]"
    let ?dst = "filepath_Join [InstallDir cfg, ''algo_'' @ rVersion l]"
    let ?link = "filepath_Join [InstallDir cfg, ''algo_current'']"
    note na = record_not_aliased [OF pv, of cfg]
    from nolink [of b ck l] CheckHttp ok have nl0: "\<not> is_link c ?tmp" by simp
    note unfold = runOnce_def Let_def CheckHttp ok
    obtain r1 c1 where d: "downloadToFile e ?tmp c = (r1, c1)" by (cases "downloadToFile e ?tmp c")
    from downloadToFile_other [OF d nl0 na(1)] have f1: "fs c1 ?cur = fs c ?cur" .
    from downloadToFile_no_link [OF d nl0] have nl1: "\<not> is_link c1 ?tmp" .
    show ?thesis
    proof (cases r1)
      case (Some err)
      with run d f1 show ?thesis by (simp add: unfold)
    next
      case None
      note r1 = None
      show ?thesis
      proof (cases "verifySha256 H e ?tmp (rSha256 l) c1")
        case (Inl err)
        with run d r1 f1 show ?thesis by (simp add: unfold)
      next
        case (Inr good)
        show ?thesis
        proof (cases good)
          case False
          with run d r1 Inr have "c' = os_Remove ?tmp c1" by (simp add: unfold)
          with os_Remove_other [OF na(1), of c1] f1 show ?thesis by simp
        next
          case True
          note good = True
          show ?thesis
          proof (cases "os_Rename (rename_fails e) ?tmp ?dst c1")
            case None
            with run d r1 Inr good f1 show ?thesis by (simp add: unfold)
          next
            case (Some c2)
            note c2 = Some
            from os_Rename_other [OF c2 na(1) na(2)] f1 have f2: "fs c2 ?cur = fs c ?cur" by simp
            from os_Rename_no_link [OF c2 nl1] have nl2: "\<not> is_link c2 ?dst" .
            show ?thesis
            proof (cases "os_Chmod_exec (chmod_fails e) ?dst c2")
              case None
              with run d r1 Inr good c2 f2 show ?thesis by (simp add: unfold)
            next
              case (Some c3)
              note c3 = Some
              from os_Chmod_exec_other [OF c3 nl2 na(2)] f2 have f3: "fs c3 ?cur = fs c ?cur" by simp
              from os_Remove_other [OF na(3), of c3] f3
              have f4: "fs (os_Remove ?link c3) ?cur = fs c ?cur" by simp
              show ?thesis
              proof (cases "os_Symlink (symlink_fails e) ?dst ?link (os_Remove ?link c3)")
                case None
                with run d r1 Inr good c2 c3 f4 show ?thesis by (simp add: unfold)
              next
                case (Some c5)
                note c5 = Some
                from os_Symlink_other [OF c5 na(3)] f4 have f5: "fs c5 ?cur = fs c ?cur" by simp
                obtain r6 c6 where rs: "restartAlgorithm e ?link c5 = (r6, c6)"
                  by (cases "restartAlgorithm e ?link c5")
                from restartAlgorithm_fs [OF rs] f5 have f6: "fs c6 ?cur = fs c ?cur" by simp
                show ?thesis
                proof (cases r6)
                  case (Some err)
                  with run d r1 Inr good c2 c3 c5 rs f6 show ?thesis by (simp add: unfold)
                next
                  case None
                  with run d r1 Inr good c2 c3 c5 rs
                  have "os_WriteFile (record_write e) ?cur (rVersion l) c6 = (res, c')"
                    by (simp add: unfold)
                  with res show ?thesis
                    by (auto simp: os_WriteFile_def split: write_fault.splits option.splits)
                qed
              qed
            qed
          qed
        qed
      qed
    qed
  qed
qed


lemma record_changed_after_restart:
  assumes run: "runOnce H cfg current e c = (res, c')"
    and plain: "\<And>b ck l. check_reply e = CheckHttp 200 b (Some ck) \<Longrightarrow> Latest ck = Some l
        \<Longrightarrow> CHR ''/'' \<notin> set (rVersion l)"
    and nolink: "\<And>b ck l. check_reply e = CheckHttp 200 b (Some ck) \<Longrightarrow> Latest ck = Some l
        \<Longrightarrow> \<not> is_link c (filepath_Join [InstallDir cfg, ''download_'' @ rVersion l])"
  shows "fs c' (currentVerFP cfg) = fs c (currentVerFP cfg) \<or>
    (started c' = filepath_Join [InstallDir cfg, ''algo_current''] # started c \<and>
     currentCmd c' = Some (filepath_Join [InstallDir cfg, ''algo_current'']))"
proof (cases "check_reply e")
  case CheckGetErr
  with run show ?thesis by (simp add: runOnce_def)
next
  case (CheckHttp code b decoded)
  show ?thesis
  proof (cases "code = 200 \<and> (\<exists>ck l. decoded = Some ck \<and> UpdateAvailable ck \<and> Latest ck = Some l)")
    case False
    with run CheckHttp show ?thesis
      by (auto simp: runOnce_def split: option.splits if_splits)
  next
    case True
    then obtain ck l where ok: "code = 200" "decoded = Some ck" "UpdateAvailable ck" "Latest ck = Some l"
      by blast
    from plain [of b ck l] CheckHttp ok have pv: "CHR ''/'' \<notin> set (rVersion l)" by simp
    let ?cur = "currentVerFP cfg"
    let ?tmp = "filepath_Join [InstallDir cfg, ''download_'' @ rVersion l]"
    let ?dst = "filepath_Join [InstallDir cfg, ''algo_'' @ rVersion l]"
    let ?link = "filepath_Join [InstallDir cfg, ''algo_current'']"
    note na = record_not_aliased [OF pv, of cfg]
    from nolink [of b ck l] CheckHttp ok have nl0: "\<not> is_link c ?tmp" by simp
    note unfold = runOnce_def Let_def CheckHttp ok
    obtain r1 c1 where d: "downloadToFile e ?tmp c = (r1, c1)" by (cases "downloadToFile e ?tmp c")
    from downloadToFile_other [OF d nl0 na(1)] have f1: "fs c1 ?cur = fs c ?cur" .
    from downloadToFile_no_link [OF d nl0] have nl1: "\<not> is_link c1 ?tmp" .
    show ?thesis
    proof (cases r1)
      case (Some err)
      with run d f1 show ?thesis by (simp add: unfold)
    next
      case None
      note r1 = None
      show ?thesis
      proof (cases "verifySha256 H e ?tmp (rSha256 l) c1")
        case (Inl err)
        with run d r1 f1 show ?thesis by (simp add: unfold)
      next
        case (Inr good)
        show ?thesis
        proof (cases good)
          case False
          with run d r1 Inr have "c' = os_Remove ?tmp c1" by (simp add: unfold)
          with os_Remove_other [OF na(1), of c1] f1 show ?thesis by simp
        next
          case True
          note good = True
          show ?thesis
          proof (cases "os_Rename (rename_fails e) ?tmp ?dst c1")
            case None
            with run d r1 Inr good f1 show ?thesis by (simp add: unfold)
          next
            case (Some c2)
            note c2 = Some
            from os_Rename_other [OF c2 na(1) na(2)] f1 have f2: "fs c2 ?cur = fs c ?cur" by simp
            from os_Rename_no_link [OF c2 nl1] have nl2: "\<not> is_link c2 ?dst" .
            show ?thesis
            proof (cases "os_Chmod_exec (chmod_fails e) ?dst c2")
              case None
              with run d r1 Inr good c2 f2 show ?thesis by (simp add: unfold)
            next
              case (Some c3)
              note c3 = Some
              from os_Chmod_exec_other [OF c3 nl2 na(2)] f2 have f3: "fs c3 ?cur = fs c ?cur" by simp
              from os_Remove_other [OF na(3), of c3] f3
              have f4: "fs (os_Remove ?link c3) ?cur = fs c ?cur" by simp
              show ?thesis
              proof (cases "os_Symlink (symlink_fails e) ?dst ?link (os_Remove ?link c3)")
                case None
                with run d r1 Inr good c2 c3 f4 show ?thesis by (simp add: unfold)
              next
                case (Some c5)
                note c5 = Some
                from os_Symlink_other [OF c5 na(3)] f4 have f5: "fs c5 ?cur = fs c ?cur" by simp
                obtain r6 c6 where rs: "restartAlgorithm e ?link c5 = (r6, c6)"
                  by (cases "restartAlgorithm e ?link c5")
                from restartAlgorithm_fs [OF rs] f5 have f6: "fs c6 ?cur = fs c ?cur" by simp
                show ?thesis
                proof (cases r6)
                  case (Some err)
                  with run d r1 Inr good c2 c3 c5 rs f6 show ?thesis by (simp add: unfold)
                next
                  case None
                  with run d r1 Inr good c2 c3 c5 rs
                  have w: "os_WriteFile (record_write e) ?cur (rVersion l) c6 = (res, c')"
                    by (simp add: unfold)
                  from None rs have rs0: "restartAlgorithm e ?link c5 = (None, c6)" by simp
                  from downloadToFile_sup [OF d] os_Rename_sup [OF c2] os_Chmod_exec_sup [OF c3]
                    os_Remove_sup [of ?link c3] os_Symlink_sup [OF c5] restartAlgorithm_ok [OF rs0]
                    os_WriteFile_sup [OF w]
                  show ?thesis by simp
                qed
              qed
            qed
          qed
        qed
      qed
    qed
  qed
qed

lemma plain_offerD:
  "plain_offer e \<Longrightarrow> check_reply e = CheckHttp code b (Some ck) \<Longrightarrow> Latest ck = Some l
    \<Longrightarrow> CHR ''/'' \<notin> set (rVersion l)"
  by (simp add: plain_offer_def offered_version_def)

lemma no_link_at_downloadD:
  "no_link_at_download cfg e c \<Longrightarrow> check_reply e = CheckHttp code b (Some ck) \<Longrightarrow> Latest ck = Some l
    \<Longrightarrow> \<not> is_link c (filepath_Join [InstallDir cfg, ''download_'' @ rVersion l])"
  by (simp add: no_link_at_download_def offered_version_def)

lemma mismatch_result:
  assumes "check_reply e = CheckHttp 200 b (Some ck)" "UpdateAvailable ck" "Latest ck = Some l"
    "download_reply e = DownloadHttp 200 served None" "\<not> tmp_create_fails e"
    "\<not> verify_open_fails e" "\<not> verify_read_fails e" "H served \<noteq> rSha256 l"
    "\<not> is_link c (filepath_Join [InstallDir cfg, ''download_'' @ rVersion l])"
  shows "runOnce H cfg current e c =
    (Some Sha256Mismatch,
     c\<lparr>fs := (fs c)(filepath_Join [InstallDir cfg, ''download_'' @ rVersion l] := None)\<rparr>)"
proof -
  let ?tmp = "filepath_Join [InstallDir cfg, ''download_'' @ rVersion l]"
  have d: "downloadToFile e ?tmp c = (None, put_file ?tmp served c)"
    using assms by (simp add: downloadToFile_def os_Create_def follow_links_no_link)
  have v: "verifySha256 H e ?tmp (rSha256 l) (put_file ?tmp served c) = Inr False"
    using assms follow_links_no_link [OF put_file_no_link [of ?tmp served c]]
    by (simp add: verifySha256_def put_file_def)
  show ?thesis
    using assms d v by (simp add: runOnce_def Let_def put_file_def os_Remove_def)
qed

subsection \<open>Cycles on concrete inputs\<close>

lemmas client_eval = runOnce_def poll_cycle_def readCurrentVersion_def currentVerFP_def downloadToFile_def
  verifySha256_def os_Remove_def os_Rename_def os_Chmod_exec_def os_Symlink_def os_WriteFile_def
  os_Create_def put_file_def exec_bit_def restartAlgorithm_def startAlgorithm_def stopAlgorithm_def
  executable_def follow_links_def resolve_unfold link_target_def filepath_Split_def is_link_def
  config_0_def client_1_0_0_def config_abs_def client_abs_def offer_def toy_hash_def
  filepath_Join_def filepath_Clean_def clean_step_def

text \<open>
  C2, on the code: the server offers a release whose version is
  \<open>x/../current_version\<close> and serves bytes whose digest differs from the declared
  one. \<open>filepath.Join\<close> cleans the temporary path \<open>inst/download_x/../current_version\<close>
  to \<open>inst/current_version\<close>, the record file: the download overwrites it and the
  mismatch branch removes it. The cycle ends with the mismatch error and the record,
  1.0.0 before, is gone.
\<close>

theorem mismatch_removes_aliased_record:
  "readCurrentVersion config_0 client_1_0_0 = ''1.0.0'' \<and>
   poll_cycle toy_hash config_0
      (offer ''x/../current_version'' ''h:new-bytes'' ''other-bytes'' None) client_1_0_0
     = (Some Sha256Mismatch, \<lparr>fs = Map.empty, currentCmd = None, started = []\<rparr>) \<and>
   readCurrentVersion config_0 (snd (poll_cycle toy_hash config_0
      (offer ''x/../current_version'' ''h:new-bytes'' ''other-bytes'' None) client_1_0_0)) = []"
  by (simp add: client_eval Let_def fun_eq_iff)

text \<open>
  C6, on the code: with the same version, a download that fails after three bytes
  leaves those bytes in the record file; a failed download has changed the recorded
  version.
\<close>

theorem failed_download_overwrites_aliased_record:
  "readCurrentVersion config_0 client_1_0_0 = ''1.0.0'' \<and>
   poll_cycle toy_hash config_0
      (offer ''x/../current_version'' ''h:new-bytes'' ''new-bytes'' (Some 3)) client_1_0_0
     = (Some CopyError,
        \<lparr>fs = [''inst/current_version'' \<mapsto> File ''new'' False], currentCmd = None, started = []\<rparr>) \<and>
   readCurrentVersion config_0 (snd (poll_cycle toy_hash config_0
      (offer ''x/../current_version'' ''h:new-bytes'' ''new-bytes'' (Some 3)) client_1_0_0)) = ''new''"
  by (simp add: client_eval Let_def fun_eq_iff)

text \<open>
  A symlink at the temporary path is followed by the download: with a link to the
  record there, a cycle for the version 2.0.0 that ends with the mismatch error has
  written the served bytes to the record file and removed the link.
\<close>

lemma mismatch_through_symlink:
  "poll_cycle toy_hash config_0 (offer ''2.0.0'' ''h:new-bytes'' ''other-bytes'' None)
      (client_1_0_0\<lparr>fs := (fs client_1_0_0)(''inst/download_2.0.0'' \<mapsto> Symlink ''current_version'')\<rparr>)
     = (Some Sha256Mismatch,
        \<lparr>fs = [''inst/current_version'' \<mapsto> File ''other-bytes'' False],
         currentCmd = None, started = []\<rparr>)"
  by (simp add: client_eval Let_def fun_eq_iff)

text \<open>
  With a relative install directory the installed symlink does not lead to the
  artifact: its target \<open>inst/algo_2.0.0\<close> is taken from the directory \<open>inst\<close> of the
  link. The cycle installs the artifact and ends with the error of the start.
\<close>

lemma relative_install_dir_link:
  "fst (runOnce toy_hash config_0 ''1.0.0''
          (offer ''2.0.0'' ''h:new-bytes'' ''new-bytes'' None) client_1_0_0) = Some StartError \<and>
   fs (snd (runOnce toy_hash config_0 ''1.0.0''
          (offer ''2.0.0'' ''h:new-bytes'' ''new-bytes'' None) client_1_0_0)) ''inst/algo_current''
     = Some (Symlink ''inst/algo_2.0.0'') \<and>
   follow_links (snd (runOnce toy_hash config_0 ''1.0.0''
          (offer ''2.0.0'' ''h:new-bytes'' ''new-bytes'' None) client_1_0_0)) ''inst/algo_current''
     = Some ''inst/inst/algo_2.0.0''"
  by (simp add: client_eval Let_def fun_eq_iff)

subsection \<open>Cycles whose release version is a path element\<close>

text \<open>
  X3 (C2 where the temporary path holds no symlink): when the check offers an update,
  the download succeeds and the digest of the downloaded bytes differs from the declared
  one, and the path of the temporary download file held no symlink before the cycle,
  the cycle ends with the mismatch error and the client is as before except that the
  temporary download file is absent: nothing was renamed, the symlink \<open>algo_current\<close>
  and the supervisor are untouched. If moreover the version has no \<open>/\<close> and the record
  path holds no symlink, the recorded current version is unchanged.
\<close>

theorem digest_mismatch_aborts:
  "check_reply e = CheckHttp 200 b (Some ck) \<and> UpdateAvailable ck \<and> Latest ck = Some l \<and>
   download_reply e = DownloadHttp 200 served None \<and> \<not> tmp_create_fails e \<and>
   \<not> verify_open_fails e \<and> \<not> verify_read_fails e \<and> H served \<noteq> rSha256 l \<and>
   \<not> is_link c (filepath_Join [InstallDir cfg, ''download_'' @ rVersion l])
   \<longrightarrow>
   runOnce H cfg current e c =
     (Some Sha256Mismatch,
      c\<lparr>fs := (fs c)(filepath_Join [InstallDir cfg, ''download_'' @ rVersion l] := None)\<rparr>) \<and>
   (CHR ''/'' \<notin> set (rVersion l) \<and> \<not> is_link c (currentVerFP cfg) \<longrightarrow>
      readCurrentVersion cfg (snd (runOnce H cfg current e c)) = readCurrentVersion cfg c)"
proof (intro impI, elim conjE)
  assume a: "check_reply e = CheckHttp 200 b (Some ck)" "UpdateAvailable ck" "Latest ck = Some l"
    "download_reply e = DownloadHttp 200 served None" "\<not> tmp_create_fails e"
    "\<not> verify_open_fails e" "\<not> verify_read_fails e" "H served \<noteq> rSha256 l"
    "\<not> is_link c (filepath_Join [InstallDir cfg, ''download_'' @ rVersion l])"
  have r: "runOnce H cfg current e c =
     (Some Sha256Mismatch,
      c\<lparr>fs := (fs c)(filepath_Join [InstallDir cfg, ''download_'' @ rVersion l] := None)\<rparr>)"
    using a by (rule mismatch_result)
  have "readCurrentVersion cfg (snd (runOnce H cfg current e c)) = readCurrentVersion cfg c"
    if pv: "CHR ''/'' \<notin> set (rVersion l)" and nl: "\<not> is_link c (currentVerFP cfg)"
  proof (rule readCurrentVersion_same [OF _ nl])
    show "fs (snd (runOnce H cfg current e c)) (currentVerFP cfg) = fs c (currentVerFP cfg)"
      using record_not_aliased(1) [OF pv, of cfg] by (simp add: r)
  qed
  with r show "runOnce H cfg current e c =
     (Some Sha256Mismatch,
      c\<lparr>fs := (fs c)(filepath_Join [InstallDir cfg, ''download_'' @ rVersion l] := None)\<rparr>) \<and>
   (CHR ''/'' \<notin> set (rVersion l) \<and> \<not> is_link c (currentVerFP cfg) \<longrightarrow>
      readCurrentVersion cfg (snd (runOnce H cfg current e c)) = readCurrentVersion cfg c)"
    by blast
qed

theorem digest_mismatch_aborts_witness:
  "toy_hash ''other-bytes'' \<noteq> ''h:new-bytes'' \<and>
   \<not> is_link client_1_0_0 (filepath_Join [InstallDir config_0, ''download_2.0.0'']) \<and>
   \<not> is_link client_1_0_0 (currentVerFP config_0) \<and>
   runOnce toy_hash config_0 ''1.0.0'' (offer ''2.0.0'' ''h:new-bytes'' ''other-bytes'' None) client_1_0_0
     = (Some Sha256Mismatch, client_1_0_0) \<and>
   readCurrentVersion config_0 (snd (runOnce toy_hash config_0 ''1.0.0''
       (offer ''2.0.0'' ''h:new-bytes'' ''other-bytes'' None) client_1_0_0)) = ''1.0.0''"
  using digest_mismatch_aborts [where e = "offer ''2.0.0'' ''h:new-bytes'' ''other-bytes'' None"
      and H = toy_hash and cfg = config_0 and current = "''1.0.0''" and c = client_1_0_0
      and served = "''other-bytes''" and b = "[]"
      and l = "\<lparr>rVersion = ''2.0.0'', rChannel = ''stable'', rURL = ''/download/2.0.0'',
                  rSha256 = ''h:new-bytes'', rNotes = []\<rparr>"
      and ck = "\<lparr>UpdateAvailable = True,
                   Latest = Some \<lparr>rVersion = ''2.0.0'', rChannel = ''stable'',
                     rURL = ''/download/2.0.0'', rSha256 = ''h:new-bytes'', rNotes = []\<rparr>,
                   Message = ''new version available''\<rparr>"]
  by (simp add: client_eval Let_def fun_eq_iff)

text \<open>
  X4 (C6 where the version has no \<open>/\<close> and the temporary path holds no symlink): a
  cycle that ends with an error other than the failure of the final record write (that
  is, with a failed check, download, verification, installation or restart) leaves the
  record file as it was, and the recorded version read back is the same when the record
  path holds no symlink; and a cycle that changes the record file has restarted the
  algorithm from the symlink \<open>algo_current\<close> before.
\<close>

theorem record_only_after_restart:
  "plain_offer e \<and> no_link_at_download cfg e c \<and> runOnce H cfg current e c = (res, c')
   \<longrightarrow>
   (res \<noteq> None \<and> res \<noteq> Some WriteError \<longrightarrow> fs c' (currentVerFP cfg) = fs c (currentVerFP cfg)) \<and>
   (res \<noteq> None \<and> res \<noteq> Some WriteError \<and> \<not> is_link c (currentVerFP cfg) \<longrightarrow>
      readCurrentVersion cfg c' = readCurrentVersion cfg c) \<and>
   (fs c' (currentVerFP cfg) \<noteq> fs c (currentVerFP cfg) \<longrightarrow>
      started c' = filepath_Join [InstallDir cfg, ''algo_current''] # started c \<and>
      currentCmd c' = Some (filepath_Join [InstallDir cfg, ''algo_current'']))"
proof (intro impI, elim conjE)
  assume p: "plain_offer e" and n: "no_link_at_download cfg e c"
    and run: "runOnce H cfg current e c = (res, c')"
  have same: "fs c' (currentVerFP cfg) = fs c (currentVerFP cfg)"
    if "res \<noteq> None" "res \<noteq> Some WriteError"
    using record_untouched_before_write [OF run _ _ that] plain_offerD [OF p]
      no_link_at_downloadD [OF n] by blast
  have restarted: "fs c' (currentVerFP cfg) = fs c (currentVerFP cfg) \<or>
    (started c' = filepath_Join [InstallDir cfg, ''algo_current''] # started c \<and>
     currentCmd c' = Some (filepath_Join [InstallDir cfg, ''algo_current'']))"
    using record_changed_after_restart [OF run] plain_offerD [OF p]
      no_link_at_downloadD [OF n] by blast
  show "(res \<noteq> None \<and> res \<noteq> Some WriteError \<longrightarrow> fs c' (currentVerFP cfg) = fs c (currentVerFP cfg)) \<and>
   (res \<noteq> None \<and> res \<noteq> Some WriteError \<and> \<not> is_link c (currentVerFP cfg) \<longrightarrow>
      readCurrentVersion cfg c' = readCurrentVersion cfg c) \<and>
   (fs c' (currentVerFP cfg) \<noteq> fs c (currentVerFP cfg) \<longrightarrow>
      started c' = filepath_Join [InstallDir cfg, ''algo_current''] # started c \<and>
      currentCmd c' = Some (filepath_Join [InstallDir cfg, ''algo_current'']))"
    using same restarted readCurrentVersion_same [of c' cfg c] by blast
qed

theorem record_only_after_restart_witness:
  "plain_offer ((offer ''2.0.0'' ''h:new-bytes'' ''new-bytes'' None)\<lparr>start_fails := True\<rparr>) \<and>
   no_link_at_download config_abs
     ((offer ''2.0.0'' ''h:new-bytes'' ''new-bytes'' None)\<lparr>start_fails := True\<rparr>) client_abs \<and>
   \<not> is_link client_abs (currentVerFP config_abs) \<and>
   fst (runOnce toy_hash config_abs ''1.0.0''
         ((offer ''2.0.0'' ''h:new-bytes'' ''new-bytes'' None)\<lparr>start_fails := True\<rparr>) client_abs)
     = Some StartError \<and>
   readCurrentVersion config_abs (snd (runOnce toy_hash config_abs ''1.0.0''
         ((offer ''2.0.0'' ''h:new-bytes'' ''new-bytes'' None)\<lparr>start_fails := True\<rparr>) client_abs))
     = ''1.0.0'' \<and>
   plain_offer (offer ''2.0.0'' ''h:new-bytes'' ''new-bytes'' None) \<and>
   no_link_at_download config_abs (offer ''2.0.0'' ''h:new-bytes'' ''new-bytes'' None) client_abs \<and>
   fst (runOnce toy_hash config_abs ''1.0.0''
         (offer ''2.0.0'' ''h:new-bytes'' ''new-bytes'' None) client_abs) = None \<and>
   readCurrentVersion config_abs (snd (runOnce toy_hash config_abs ''1.0.0''
         (offer ''2.0.0'' ''h:new-bytes'' ''new-bytes'' None) client_abs)) = ''2.0.0'' \<and>
   started (snd (runOnce toy_hash config_abs ''1.0.0''
         (offer ''2.0.0'' ''h:new-bytes'' ''new-bytes'' None) client_abs)) = [''/opt/ota/algo_current'']"
  using
    record_only_after_restart [where e = "(offer ''2.0.0'' ''h:new-bytes'' ''new-bytes'' None)\<lparr>start_fails := True\<rparr>"
      and H = toy_hash and cfg = config_abs and current = "''1.0.0''" and c = client_abs
      and res = "Some StartError"
      and c' = "snd (runOnce toy_hash config_abs ''1.0.0''
         ((offer ''2.0.0'' ''h:new-bytes'' ''new-bytes'' None)\<lparr>start_fails := True\<rparr>) client_abs)"]
    record_only_after_restart [where e = "offer ''2.0.0'' ''h:new-bytes'' ''new-bytes'' None"
      and H = toy_hash and cfg = config_abs and current = "''1.0.0''" and c = client_abs
      and res = None
      and c' = "snd (runOnce toy_hash config_abs ''1.0.0''
         (offer ''2.0.0'' ''h:new-bytes'' ''new-bytes'' None) client_abs)"]
  by (simp add: client_eval plain_offer_def offered_version_def no_link_at_download_def
      Let_def fun_eq_iff)

end
